theory Spec2Isabelle
  imports Main "HOL-Library.Word"
begin

unbundle bit_operations_syntax

section \<open>Basic types of the block store\<close>

text \<open>
  The store of \<^verbatim>\<open>store/store.go\<close> keeps serialized records in a key-value engine and a
  cached height counter in memory. Byte strings are lists of 8-bit words, heights are
  \<^verbatim>\<open>uint64\<close>, and the last block height of a chain state is an \<^verbatim>\<open>int64\<close>: the same
  64 bits, read as two's complement by \<open>sint\<close>. The conversion \<^verbatim>\<open>uint64(x)\<close> of an
  \<^verbatim>\<open>int64\<close> keeps the bits, so it is the identity on \<open>64 word\<close>.
\<close>

type_synonym byte = "8 word"
type_synonym bytes = "byte list"
type_synonym uint64 = "64 word"
type_synonym int64 = "64 word"

text \<open>
  A block header hash is a Go array \<^verbatim>\<open>[32]byte\<close>: its length is part of the type.
  \<open>Rep_hash32\<close> is the slice \<^verbatim>\<open>hash[:]\<close>, and \<open>Abs_hash32\<close> on a 32-byte slice is the
  \<^verbatim>\<open>copy(hash[:], blob)\<close> of \<^verbatim>\<open>loadHashFromIndex\<close>.
\<close>

typedef hash32 = "{bs :: byte list. length bs = 32}"
  by (rule exI [of _ "replicate 32 0"]) simp

section \<open>Key derivation\<close>

definition blockPrefix :: string where
  "blockPrefix = ''b/''"

definition indexPrefix :: string where
  "indexPrefix = ''i/''"

definition commitPrefix :: string where
  "commitPrefix = ''c/''"

definition statePrefix :: string where
  "statePrefix = ''s/''"

definition responsesPrefix :: string where
  "responsesPrefix = ''r/''"

definition validatorsPrefix :: string where
  "validatorsPrefix = ''v/''"

text \<open>
  \<^verbatim>\<open>hex.EncodeToString\<close> of the Go library: two characters of the table
  \<^verbatim>\<open>"0123456789abcdef"\<close> for every byte, the high nibble \<^verbatim>\<open>v >> 4\<close> first, then
  \<^verbatim>\<open>v & 0x0f\<close>.
\<close>

definition hextable :: string where
  "hextable = ''0123456789abcdef''"

fun hex_EncodeToString :: "bytes \<Rightarrow> string" where
  "hex_EncodeToString [] = []"
| "hex_EncodeToString (v # src) =
     hextable ! unat (drop_bit 4 v) # hextable ! unat (v AND 15) # hex_EncodeToString src"

text \<open>
  \<^verbatim>\<open>strconv.FormatUint(height, 10)\<close> of the Go library: the decimal digits of the number,
  most significant first, a single \<^verbatim>\<open>0\<close> for zero.
\<close>

definition digits :: string where
  "digits = ''0123456789''"

fun formatDec :: "nat \<Rightarrow> string" where
  "formatDec n =
     (if n < 10 then [digits ! n] else formatDec (n div 10) @ [digits ! (n mod 10)])"

declare formatDec.simps [simp del]

definition FormatUint :: "uint64 \<Rightarrow> string" where
  "FormatUint h = formatDec (unat h)"

text \<open>Reading a decimal string back, to state that \<open>FormatUint\<close> writes the number itself.\<close>

definition digit_index :: "string \<Rightarrow> char \<Rightarrow> nat" where
  "digit_index tab c = length (takeWhile (\<lambda>d. d \<noteq> c) tab)"

definition parseDec :: "string \<Rightarrow> nat" where
  "parseDec s = foldl (\<lambda>a c. 10 * a + digit_index digits c) 0 s"

text \<open>The six key functions; each writes its prefix and its suffix into a buffer.\<close>

definition getBlockKey :: "hash32 \<Rightarrow> string" where
  "getBlockKey hash = blockPrefix @ hex_EncodeToString (Rep_hash32 hash)"

definition getCommitKey :: "hash32 \<Rightarrow> string" where
  "getCommitKey hash = commitPrefix @ hex_EncodeToString (Rep_hash32 hash)"

definition getIndexKey :: "uint64 \<Rightarrow> string" where
  "getIndexKey height = indexPrefix @ FormatUint height"

definition getStateKey :: string where
  "getStateKey = statePrefix"

definition getResponsesKey :: "uint64 \<Rightarrow> string" where
  "getResponsesKey height = responsesPrefix @ FormatUint height"

definition getValidatorsKey :: "uint64 \<Rightarrow> string" where
  "getValidatorsKey height = validatorsPrefix @ FormatUint height"

section \<open>Errors\<close>

text \<open>
  Go errors as values. \<open>ErrNotFound\<close> is \<^verbatim>\<open>ds.ErrNotFound\<close>, the error of the engine for
  an absent key; \<open>EngineFailure\<close> is any other error the engine reports; \<open>CodecFailure\<close>
  is an error of a serialization codec. \<open>errors_New\<close> is \<^verbatim>\<open>errors.New\<close>, \<open>fmt_Errorf\<close> is
  \<^verbatim>\<open>fmt.Errorf\<close> with the verb \<^verbatim>\<open>%w\<close> (the format string as written in the source, and the
  wrapped error), and \<open>multiError\<close> is the combined error of \<^verbatim>\<open>multierr\<close>.
\<close>

datatype error =
    ErrNotFound
  | EngineFailure
  | CodecFailure string
  | errors_New string
  | fmt_Errorf string error
  | multiError "error list"

text \<open>\<^verbatim>\<open>errors.Is\<close>: the target is the error itself or is found by unwrapping.\<close>

fun errors_Is :: "error \<Rightarrow> error \<Rightarrow> bool" where
  "errors_Is (fmt_Errorf msg err) target =
     (fmt_Errorf msg err = target \<or> errors_Is err target)"
| "errors_Is (multiError errs) target =
     (multiError errs = target \<or> list_ex (\<lambda>err. errors_Is err target) errs)"
| "errors_Is err target = (err = target)"

text \<open>
  \<^verbatim>\<open>multierr.Append\<close>: a nil side gives the other side; two errors give one combined
  error that lists both, a combined error contributing its list.
\<close>

fun multierr_Errors :: "error \<Rightarrow> error list" where
  "multierr_Errors (multiError errs) = errs"
| "multierr_Errors err = [err]"

definition multierr_Append :: "error option \<Rightarrow> error option \<Rightarrow> error option" where
  "multierr_Append left right =
     (case left of
        None \<Rightarrow> right
      | Some l \<Rightarrow>
          (case right of
             None \<Rightarrow> Some l
           | Some r \<Rightarrow> Some (multiError (multierr_Errors l @ multierr_Errors r))))"

section \<open>The key-value engine\<close>

text \<open>
  The engine (\<^verbatim>\<open>ds.Datastore\<close>, here \<^verbatim>\<open>go-ds-badger3\<close>) is an external collaborator. It is
  modelled by its contract: point reads and writes on a map from keys to values, and
  transactions that stage writes and apply all of them on a successful commit and none
  of them otherwise. Any call but \<^verbatim>\<open>Discard\<close> may fail: \<open>faults\<close> says which calls the
  engine refuses, and a refused call changes no entry. \<open>journal\<close> lists the write-side
  calls issued so far, the refused ones included; it is there to state which calls an
  operation made. \<open>badger\<close> says whether the dynamic type of the engine is
  \<^verbatim>\<open>*badger3.Datastore\<close>.

  \<^verbatim>\<open>ds.NewKey\<close> normalises a key string to a path; on the strings the key functions build
  it puts a slash in front (and drops the final slash of the state key), so it maps
  different strings to different keys. It is a constructor here.
\<close>

datatype key = NewKey string

datatype engine_call =
    Get key
  | Put key bytes
  | NewTransaction
  | TxnPut key bytes
  | TxnCommit
  | TxnDiscard

record datastore =
  entries :: "key \<rightharpoonup> bytes"
  badger :: bool
  faults :: "engine_call \<Rightarrow> bool"
  journal :: "engine_call list"

record txn =
  staged :: "(key \<times> bytes) list"

definition issue :: "engine_call \<Rightarrow> datastore \<Rightarrow> datastore" where
  "issue call d = d\<lparr>journal := journal d @ [call]\<rparr>"

definition ds_Get :: "datastore \<Rightarrow> key \<Rightarrow> error + bytes" where
  "ds_Get d k =
     (if faults d (Get k) then Inl EngineFailure
      else case entries d k of None \<Rightarrow> Inl ErrNotFound | Some v \<Rightarrow> Inr v)"

definition ds_Put :: "datastore \<Rightarrow> key \<Rightarrow> bytes \<Rightarrow> datastore \<times> error option" where
  "ds_Put d k v =
     (if faults d (Put k v) then (issue (Put k v) d, Some EngineFailure)
      else (issue (Put k v) (d\<lparr>entries := (entries d)(k \<mapsto> v)\<rparr>), None))"

definition ds_NewTransaction :: "datastore \<Rightarrow> datastore \<times> (error + txn)" where
  "ds_NewTransaction d =
     (if faults d NewTransaction then (issue NewTransaction d, Inl EngineFailure)
      else (issue NewTransaction d, Inr \<lparr>staged = []\<rparr>))"

definition txn_Put :: "datastore \<Rightarrow> txn \<Rightarrow> key \<Rightarrow> bytes \<Rightarrow> datastore \<times> txn \<times> error option" where
  "txn_Put d t k v =
     (if faults d (TxnPut k v) then (issue (TxnPut k v) d, t, Some EngineFailure)
      else (issue (TxnPut k v) d, t\<lparr>staged := staged t @ [(k, v)]\<rparr>, None))"

definition apply_writes :: "(key \<times> bytes) list \<Rightarrow> (key \<rightharpoonup> bytes) \<Rightarrow> (key \<rightharpoonup> bytes)" where
  "apply_writes ws m = foldl (\<lambda>m (k, v). m(k \<mapsto> v)) m ws"

definition txn_Commit :: "datastore \<Rightarrow> txn \<Rightarrow> datastore \<times> error option" where
  "txn_Commit d t =
     (if faults d TxnCommit then (issue TxnCommit d, Some EngineFailure)
      else (issue TxnCommit (d\<lparr>entries := apply_writes (staged t) (entries d)\<rparr>), None))"

definition txn_Discard :: "datastore \<Rightarrow> txn \<Rightarrow> datastore" where
  "txn_Discard d t = issue TxnDiscard d"

section \<open>The codecs of the stored records\<close>

text \<open>
  The types \<^verbatim>\<open>types.Block\<close>, \<^verbatim>\<open>types.Commit\<close>, \<^verbatim>\<open>types.State\<close>, the ABCI responses and the
  validator set, with their serialization, are declared outside \<^verbatim>\<open>store/store.go\<close>. The
  store only calls them, so they are parameters: a record of the functions the store
  calls, over the types of the records. A function that fills a fresh value and returns
  an error, and whose value the store uses even when there is an error, returns both.
\<close>

record ('blk, 'cmt) block_codec =
  Header_Hash :: "'blk \<Rightarrow> hash32"
  Header_Height :: "'blk \<Rightarrow> uint64"
  Block_MarshalBinary :: "'blk \<Rightarrow> error + bytes"
  Block_UnmarshalBinary :: "bytes \<Rightarrow> error + 'blk"
  Commit_MarshalBinary :: "'cmt \<Rightarrow> error + bytes"
  Commit_UnmarshalBinary :: "bytes \<Rightarrow> error + 'cmt"

record 'rsp responses_codec =
  Responses_Marshal :: "'rsp \<Rightarrow> error + bytes"
  Responses_Unmarshal :: "bytes \<Rightarrow> 'rsp \<times> error option"

record ('st, 'pb) state_codec =
  State_ToProto :: "'st \<Rightarrow> error + 'pb"
  pbState_Marshal :: "'pb \<Rightarrow> error + bytes"
  pbState_Unmarshal :: "bytes \<Rightarrow> error + 'pb"
  State_FromProto :: "'pb \<Rightarrow> 'st \<times> error option"
  LastBlockHeight :: "'st \<Rightarrow> int64"
  zero_State :: "'st"

record ('vs, 'pb) validators_codec =
  ValidatorSet_ToProto :: "'vs \<Rightarrow> error + 'pb"
  pbValSet_Marshal :: "'pb \<Rightarrow> error + bytes"
  pbValSet_Unmarshal :: "bytes \<Rightarrow> error + 'pb"
  ValidatorSetFromProto :: "'pb \<Rightarrow> 'vs option \<times> error option"

section \<open>The store\<close>

text \<open>
  \<^verbatim>\<open>DefaultStore\<close>: the engine and the height counter (the context \<^verbatim>\<open>ctx\<close> is handed to
  the engine unread). Operations that write return the store after the call; the
  operations run one after the other, so an atomic load or store of the counter is a
  read or write of the field, and a compare-and-swap compares with the field.
\<close>

record DefaultStore =
  db :: datastore
  height :: uint64

definition New :: "datastore \<Rightarrow> DefaultStore" where
  "New ds = \<lparr>db = ds, height = 0\<rparr>"

definition CompareAndSwapUint64 :: "uint64 \<Rightarrow> uint64 \<Rightarrow> uint64 \<Rightarrow> uint64 \<times> bool" where
  "CompareAndSwapUint64 cur old new = (if cur = old then (new, True) else (cur, False))"

definition SetHeight :: "DefaultStore \<Rightarrow> uint64 \<Rightarrow> DefaultStore" where
  "SetHeight s h =
     (let storeHeight = height s in
      if h > storeHeight
      then s\<lparr>height := fst (CompareAndSwapUint64 (height s) storeHeight h)\<rparr>
      else s)"

definition Height :: "DefaultStore \<Rightarrow> uint64" where
  "Height s = height s"

definition SaveBlock ::
  "('blk, 'cmt) block_codec \<Rightarrow> DefaultStore \<Rightarrow> 'blk \<Rightarrow> 'cmt \<Rightarrow> DefaultStore \<times> error option"
where
  "SaveBlock c s block commit =
     (let hash = Header_Hash c block in
      case Block_MarshalBinary c block of
        Inl err \<Rightarrow> (s, Some (fmt_Errorf ''failed to marshal Block to binary: %w'' err))
      | Inr blockBlob \<Rightarrow>
     (case Commit_MarshalBinary c commit of
        Inl err \<Rightarrow> (s, Some (fmt_Errorf ''failed to marshal Commit to binary: %w'' err))
      | Inr commitBlob \<Rightarrow>
     (if \<not> badger (db s)
      then (s, Some (errors_New ''failed to retrieve the ds.Datastore implementation''))
      else
     (case ds_NewTransaction (db s) of
        (d0, Inl err) \<Rightarrow>
          (s\<lparr>db := d0\<rparr>,
           Some (fmt_Errorf ''failed to create a new batch for transaction: %w'' err))
      | (d0, Inr bb0) \<Rightarrow>
     (case txn_Put d0 bb0 (NewKey (getBlockKey hash)) blockBlob of (d1, bb1, e1) \<Rightarrow>
      case txn_Put d1 bb1 (NewKey (getCommitKey hash)) commitBlob of (d2, bb2, e2) \<Rightarrow>
      case txn_Put d2 bb2 (NewKey (getIndexKey (Header_Height c block))) (Rep_hash32 hash)
        of (d3, bb3, e3) \<Rightarrow>
     (case multierr_Append (multierr_Append (multierr_Append None e1) e2) e3 of
        Some err \<Rightarrow> (s\<lparr>db := txn_Discard d3 bb3\<rparr>, Some err)
      | None \<Rightarrow>
     (case txn_Commit d3 bb3 of
        (d4, Some err) \<Rightarrow>
          (s\<lparr>db := d4\<rparr>, Some (fmt_Errorf ''failed to commit transaction: %w'' err))
      | (d4, None) \<Rightarrow> (s\<lparr>db := d4\<rparr>, None))))))))"

definition zero_hash :: hash32 where
  "zero_hash = Abs_hash32 (replicate 32 0)"

definition loadHashFromIndex :: "DefaultStore \<Rightarrow> uint64 \<Rightarrow> hash32 \<times> error option" where
  "loadHashFromIndex s h =
     (case ds_Get (db s) (NewKey (getIndexKey h)) of
        Inl err \<Rightarrow>
          (zero_hash, Some (fmt_Errorf ''failed to load block hash for height %v: %w'' err))
      | Inr blob \<Rightarrow>
          if length blob \<noteq> 32 then (zero_hash, Some (errors_New ''invalid hash length''))
          else (Abs_hash32 blob, None))"

definition LoadBlockByHash ::
  "('blk, 'cmt) block_codec \<Rightarrow> DefaultStore \<Rightarrow> hash32 \<Rightarrow> 'blk option \<times> error option"
where
  "LoadBlockByHash c s hash =
     (case ds_Get (db s) (NewKey (getBlockKey hash)) of
        Inl err \<Rightarrow> (None, Some (fmt_Errorf ''failed to load block data: %w'' err))
      | Inr blockData \<Rightarrow>
          (case Block_UnmarshalBinary c blockData of
             Inl err \<Rightarrow> (None, Some (fmt_Errorf ''failed to unmarshal block data: %w'' err))
           | Inr block \<Rightarrow> (Some block, None)))"

definition LoadBlock ::
  "('blk, 'cmt) block_codec \<Rightarrow> DefaultStore \<Rightarrow> uint64 \<Rightarrow> 'blk option \<times> error option"
where
  "LoadBlock c s h =
     (case loadHashFromIndex s h of
        (hash, Some err) \<Rightarrow> (None, Some (fmt_Errorf ''failed to load hash from index: %w'' err))
      | (hash, None) \<Rightarrow> LoadBlockByHash c s hash)"

definition SaveBlockResponses ::
  "'rsp responses_codec \<Rightarrow> DefaultStore \<Rightarrow> uint64 \<Rightarrow> 'rsp \<Rightarrow> DefaultStore \<times> error option"
where
  "SaveBlockResponses c s h responses =
     (case Responses_Marshal c responses of
        Inl err \<Rightarrow> (s, Some (fmt_Errorf ''failed to marshal response: %w'' err))
      | Inr data \<Rightarrow>
          (case ds_Put (db s) (NewKey (getResponsesKey h)) data of
             (d, err) \<Rightarrow> (s\<lparr>db := d\<rparr>, err)))"

definition LoadBlockResponses ::
  "'rsp responses_codec \<Rightarrow> DefaultStore \<Rightarrow> uint64 \<Rightarrow> 'rsp option \<times> error option"
where
  "LoadBlockResponses c s h =
     (case ds_Get (db s) (NewKey (getResponsesKey h)) of
        Inl err \<Rightarrow>
          (None, Some (fmt_Errorf ''failed to retrieve block results from height %v: %w'' err))
      | Inr data \<Rightarrow>
          (case Responses_Unmarshal c data of
             (responses, Some err) \<Rightarrow>
               (Some responses, Some (fmt_Errorf ''failed to unmarshal data: %w'' err))
           | (responses, None) \<Rightarrow> (Some responses, None)))"

definition LoadCommitByHash ::
  "('blk, 'cmt) block_codec \<Rightarrow> DefaultStore \<Rightarrow> hash32 \<Rightarrow> 'cmt option \<times> error option"
where
  "LoadCommitByHash c s hash =
     (case ds_Get (db s) (NewKey (getCommitKey hash)) of
        Inl err \<Rightarrow> (None, Some (fmt_Errorf ''failed to retrieve commit from hash %v: %w'' err))
      | Inr commitData \<Rightarrow>
          (case Commit_UnmarshalBinary c commitData of
             Inl err \<Rightarrow> (None, Some (fmt_Errorf ''failed to marshal Commit into object: %w'' err))
           | Inr commit \<Rightarrow> (Some commit, None)))"

definition LoadCommit ::
  "('blk, 'cmt) block_codec \<Rightarrow> DefaultStore \<Rightarrow> uint64 \<Rightarrow> 'cmt option \<times> error option"
where
  "LoadCommit c s h =
     (case loadHashFromIndex s h of
        (hash, Some err) \<Rightarrow> (None, Some (fmt_Errorf ''failed to load hash from index: %w'' err))
      | (hash, None) \<Rightarrow> LoadCommitByHash c s hash)"

definition UpdateState ::
  "('st, 'pb) state_codec \<Rightarrow> DefaultStore \<Rightarrow> 'st \<Rightarrow> DefaultStore \<times> error option"
where
  "UpdateState c s state =
     (case State_ToProto c state of
        Inl err \<Rightarrow> (s, Some (fmt_Errorf ''failed to marshal state to JSON: %w'' err))
      | Inr pbState \<Rightarrow>
          (case pbState_Marshal c pbState of
             Inl err \<Rightarrow> (s, Some err)
           | Inr data \<Rightarrow>
               (case ds_Put (db s) (NewKey getStateKey) data of
                  (d, err) \<Rightarrow> (s\<lparr>db := d\<rparr>, err))))"

definition uint64_of_int64 :: "int64 \<Rightarrow> uint64" where
  "uint64_of_int64 x = word_of_int (sint x)"

definition LoadState ::
  "('st, 'pb) state_codec \<Rightarrow> DefaultStore \<Rightarrow> DefaultStore \<times> 'st \<times> error option"
where
  "LoadState c s =
     (case ds_Get (db s) (NewKey getStateKey) of
        Inl err \<Rightarrow> (s, zero_State c, Some (fmt_Errorf ''failed to retrieve state: %w'' err))
      | Inr blob \<Rightarrow>
          (case pbState_Unmarshal c blob of
             Inl err \<Rightarrow>
               (s, zero_State c,
                Some (fmt_Errorf ''failed to unmarshal state from JSON: %w'' err))
           | Inr pbState \<Rightarrow>
               (case State_FromProto c pbState of
                  (state, err) \<Rightarrow>
                    (s\<lparr>height := uint64_of_int64 (LastBlockHeight c state)\<rparr>, state, err))))"

definition SaveValidators ::
  "('vs, 'pb) validators_codec \<Rightarrow> DefaultStore \<Rightarrow> uint64 \<Rightarrow> 'vs \<Rightarrow> DefaultStore \<times> error option"
where
  "SaveValidators c s h validatorSet =
     (case ValidatorSet_ToProto c validatorSet of
        Inl err \<Rightarrow> (s, Some (fmt_Errorf ''failed to marshal ValidatorSet to protobuf: %w'' err))
      | Inr pbValSet \<Rightarrow>
          (case pbValSet_Marshal c pbValSet of
             Inl err \<Rightarrow> (s, Some (fmt_Errorf ''failed to marshal ValidatorSet: %w'' err))
           | Inr blob \<Rightarrow>
               (case ds_Put (db s) (NewKey (getValidatorsKey h)) blob of
                  (d, err) \<Rightarrow> (s\<lparr>db := d\<rparr>, err))))"

definition LoadValidators ::
  "('vs, 'pb) validators_codec \<Rightarrow> DefaultStore \<Rightarrow> uint64 \<Rightarrow> 'vs option \<times> error option"
where
  "LoadValidators c s h =
     (case ds_Get (db s) (NewKey (getValidatorsKey h)) of
        Inl err \<Rightarrow> (None, Some (fmt_Errorf ''failed to load Validators for height %v: %w'' err))
      | Inr blob \<Rightarrow>
          (case pbValSet_Unmarshal c blob of
             Inl err \<Rightarrow> (None, Some (fmt_Errorf ''failed to unmarshal to protobuf: %w'' err))
           | Inr pbValSet \<Rightarrow> ValidatorSetFromProto c pbValSet))"

section \<open>Observing the calls of an operation\<close>

text \<open>
  The engine calls an operation issued are the entries it added to the journal. A batch
  is partially built when the engine refused one of its staging calls.
\<close>

definition calls_since :: "DefaultStore \<Rightarrow> DefaultStore \<Rightarrow> engine_call list" where
  "calls_since s s' = drop (length (journal (db s))) (journal (db s'))"

fun is_TxnPut :: "engine_call \<Rightarrow> bool" where
  "is_TxnPut (TxnPut k v) = True"
| "is_TxnPut call = False"

definition staging_refused :: "datastore \<Rightarrow> engine_call list \<Rightarrow> bool" where
  "staging_refused d calls = list_ex (\<lambda>call. is_TxnPut call \<and> faults d call) calls"

section \<open>Example instances\<close>

text \<open>
  Small concrete engines and codecs, on which the operations can be run: an engine with
  no entry that refuses nothing, engines that refuse chosen calls, and codecs over
  one-byte encodings.
\<close>

definition healthy :: datastore where
  "healthy = \<lparr>entries = Map.empty, badger = True, faults = (\<lambda>call. False), journal = []\<rparr>"

definition refusing :: "(engine_call \<Rightarrow> bool) \<Rightarrow> datastore" where
  "refusing f = \<lparr>entries = Map.empty, badger = True, faults = f, journal = []\<rparr>"

definition toy_hash :: "uint64 \<Rightarrow> hash32" where
  "toy_hash h = Abs_hash32 (replicate 32 (ucast h))"

definition toy_blocks :: "(uint64 \<times> bytes, bytes) block_codec" where
  "toy_blocks =
     \<lparr>Header_Hash = (\<lambda>block. toy_hash (fst block)),
      Header_Height = fst,
      Block_MarshalBinary = (\<lambda>block. Inr (ucast (fst block) # snd block)),
      Block_UnmarshalBinary =
        (\<lambda>data. case data of [] \<Rightarrow> Inl (CodecFailure ''empty block'')
                 | b # payload \<Rightarrow> Inr (ucast b, payload)),
      Commit_MarshalBinary = Inr,
      Commit_UnmarshalBinary =
        (\<lambda>data. case data of [] \<Rightarrow> Inl (CodecFailure ''empty commit'') | b # sigs \<Rightarrow> Inr data)\<rparr>"

definition toy_states :: "(int64, int64) state_codec" where
  "toy_states =
     \<lparr>State_ToProto = Inr,
      pbState_Marshal = (\<lambda>pb. Inr [ucast pb]),
      pbState_Unmarshal =
        (\<lambda>data. case data of [b] \<Rightarrow> Inr (ucast b) | _ \<Rightarrow> Inl (CodecFailure ''bad state'')),
      State_FromProto = (\<lambda>pb. (pb, None)),
      LastBlockHeight = (\<lambda>state. state),
      zero_State = 0\<rparr>"

definition toy_responses :: "byte responses_codec" where
  "toy_responses =
     \<lparr>Responses_Marshal = (\<lambda>responses. Inr [responses]),
      Responses_Unmarshal =
        (\<lambda>data. case data of [b] \<Rightarrow> (b, None)
                 | _ \<Rightarrow> (0, Some (CodecFailure ''bad responses'')))\<rparr>"

definition toy_validators :: "(byte, byte) validators_codec" where
  "toy_validators =
     \<lparr>ValidatorSet_ToProto = Inr,
      pbValSet_Marshal = (\<lambda>pb. Inr [pb]),
      pbValSet_Unmarshal =
        (\<lambda>data. case data of [b] \<Rightarrow> Inr b | _ \<Rightarrow> Inl (CodecFailure ''bad validators'')),
      ValidatorSetFromProto = (\<lambda>pb. (Some pb, None))\<rparr>"

definition holding :: "(key \<rightharpoonup> bytes) \<Rightarrow> DefaultStore" where
  "holding m = New (healthy\<lparr>entries := m\<rparr>)"

definition sparse_entries :: "key \<rightharpoonup> bytes" where
  "sparse_entries =
     [NewKey (getIndexKey 2) \<mapsto> Rep_hash32 (toy_hash 2),
      NewKey (getIndexKey 6) \<mapsto> [1, 2, 3]]"

definition corrupt_entries :: "key \<rightharpoonup> bytes" where
  "corrupt_entries =
     [NewKey (getResponsesKey 1) \<mapsto> [],
      NewKey (getBlockKey (toy_hash 2)) \<mapsto> [],
      NewKey (getCommitKey (toy_hash 2)) \<mapsto> [],
      NewKey (getIndexKey 2) \<mapsto> Rep_hash32 (toy_hash 2),
      NewKey (getValidatorsKey 1) \<mapsto> []]"

section \<open>A codec that gives a state back\<close>

text \<open>
  A state round-trips through a codec when it converts and encodes, and its encoding
  decodes and converts back to the same state without an error.
\<close>

definition state_roundtrips :: "('st, 'pb) state_codec \<Rightarrow> 'st \<Rightarrow> bool" where
  "state_roundtrips c state =
     (case State_ToProto c state of
        Inl err \<Rightarrow> False
      | Inr pbState \<Rightarrow>
          (case pbState_Marshal c pbState of
             Inl err \<Rightarrow> False
           | Inr data \<Rightarrow>
               (case pbState_Unmarshal c data of
                  Inl err \<Rightarrow> False
                | Inr pbState' \<Rightarrow> State_FromProto c pbState' = (state, None))))"

section \<open>Properties of the key encoding\<close>

lemma digit_index_nth:
  assumes "distinct tab" "i < length tab"
  shows "digit_index tab (tab ! i) = i"
proof -
  let ?tw = "takeWhile (\<lambda>d. d \<noteq> tab ! i) tab"
  have le: "i \<le> length ?tw"
    using assms by (intro length_takeWhile_less_P_nth) (simp_all add: nth_eq_iff_index_eq)
  have "\<not> i < length ?tw"
  proof
    assume lt: "i < length ?tw"
    from lt have "?tw ! i \<in> set ?tw" by (rule nth_mem)
    then have "?tw ! i \<noteq> tab ! i" by (rule set_takeWhileD [THEN conjunct2])
    moreover from lt have "?tw ! i = tab ! i" by (rule takeWhile_nth)
    ultimately show False by (rule notE)
  qed
  with le show ?thesis by (simp add: digit_index_def)
qed

lemma unat_high_nibble: "unat (drop_bit 4 (v::byte)) = unat v div 16"
  by (simp add: unat_drop_bit_eq drop_bit_eq_div unat_div)

lemma unat_low_nibble: "unat ((v::byte) AND 15) = unat v mod 16"
proof -
  have "v AND 15 = v AND mask 4" by (simp add: mask_eq_exp_minus_1)
  also have "\<dots> = take_bit 4 v" by (simp add: take_bit_eq_mask)
  finally have "unat (v AND 15) = unat (take_bit 4 v)" by simp
  also have "\<dots> = take_bit 4 (unat v)" by (simp only: unsigned_take_bit_eq)
  also have "\<dots> = unat v mod 16" by (simp add: take_bit_eq_mod)
  finally show ?thesis .
qed

lemma high_nibble_less: "unat (drop_bit 4 (v::byte)) < 16"
proof -
  have "unat v < 2 ^ 8" using unsigned_less [of v] by simp
  then show ?thesis by (simp add: unat_high_nibble)
qed

lemma low_nibble_less: "unat ((v::byte) AND 15) < 16"
  by (simp add: unat_low_nibble)

lemma nibbles_determine_byte:
  assumes "unat (drop_bit 4 v) = unat (drop_bit 4 w)" "unat (v AND 15) = unat (w AND 15)"
  shows "v = (w::byte)"
proof -
  have "unat v div 16 = unat w div 16" using assms(1) by (simp add: unat_high_nibble)
  moreover have "unat v mod 16 = unat w mod 16" using assms(2) by (simp add: unat_low_nibble)
  ultimately have "unat v = unat w" by (metis div_mult_mod_eq)
  then show ?thesis by (simp add: word_unat_eq_iff)
qed

lemma distinct_hextable: "distinct hextable"
  by (simp add: hextable_def)

lemma length_hextable: "length hextable = 16"
  by (simp add: hextable_def)

lemma distinct_digits: "distinct digits"
  by (simp add: digits_def)

lemma length_digits: "length digits = 10"
  by (simp add: digits_def)

lemma hex_pair_inj:
  assumes "hextable ! unat (drop_bit 4 v) = hextable ! unat (drop_bit 4 w)"
    and "hextable ! unat (v AND 15) = hextable ! unat (w AND 15)"
  shows "v = (w::byte)"
proof -
  have "unat (drop_bit 4 v) = unat (drop_bit 4 w)"
    using assms(1) high_nibble_less [of v] high_nibble_less [of w]
    by (simp add: nth_eq_iff_index_eq distinct_hextable length_hextable)
  moreover have "unat (v AND 15) = unat (w AND 15)"
    using assms(2) low_nibble_less [of v] low_nibble_less [of w]
    by (simp add: nth_eq_iff_index_eq distinct_hextable length_hextable)
  ultimately show ?thesis by (rule nibbles_determine_byte)
qed

lemma hex_EncodeToString_inj:
  "hex_EncodeToString xs = hex_EncodeToString ys \<Longrightarrow> xs = ys"
proof (induction xs arbitrary: ys)
  case Nil
  then show ?case by (cases ys) simp_all
next
  case (Cons x xs)
  show ?case
  proof (cases ys)
    case Nil
    with Cons.prems show ?thesis by simp
  next
    case (Cons y ys')
    from Cons.prems have a: "hextable ! unat (drop_bit 4 x) = hextable ! unat (drop_bit 4 y)"
      and b: "hextable ! unat (x AND 15) = hextable ! unat (y AND 15)"
      and c: "hex_EncodeToString xs = hex_EncodeToString ys'"
      unfolding Cons hex_EncodeToString.simps by blast+
    from a b have "x = y" by (rule hex_pair_inj)
    moreover from c have "xs = ys'" by (rule Cons.IH)
    ultimately show ?thesis using Cons by simp
  qed
qed

lemma length_hex_EncodeToString: "length (hex_EncodeToString xs) = 2 * length xs"
  by (induction xs) simp_all

lemma hex_EncodeToString_chars: "set (hex_EncodeToString xs) \<subseteq> set hextable"
proof (induction xs)
  case Nil
  then show ?case by simp
next
  case (Cons v xs)
  have "hextable ! unat (drop_bit 4 v) \<in> set hextable"
    using high_nibble_less [of v] by (intro nth_mem) (simp add: length_hextable)
  moreover have "hextable ! unat (v AND 15) \<in> set hextable"
    using low_nibble_less [of v] by (intro nth_mem) (simp add: length_hextable)
  ultimately show ?case using Cons by simp
qed

lemma parseDec_formatDec: "parseDec (formatDec n) = n"
proof (induction n rule: formatDec.induct)
  case (1 n)
  show ?case
  proof (cases "n < 10")
    case True
    then show ?thesis
      by (subst formatDec.simps)
        (simp add: parseDec_def digit_index_nth distinct_digits length_digits)
  next
    case False
    have "digit_index digits (digits ! (n mod 10)) = n mod 10"
      by (rule digit_index_nth) (simp_all add: distinct_digits length_digits)
    with False 1 show ?thesis
      by (subst formatDec.simps) (simp add: parseDec_def)
  qed
qed

lemma parseDec_FormatUint: "parseDec (FormatUint h) = unat h"
  by (simp add: FormatUint_def parseDec_formatDec)

lemma FormatUint_inj: "FormatUint a = FormatUint b \<Longrightarrow> a = b"
proof -
  assume "FormatUint a = FormatUint b"
  then have "parseDec (FormatUint a) = parseDec (FormatUint b)" by simp
  then have "unat a = unat b" by (simp only: parseDec_FormatUint)
  then show "a = b" by (simp add: word_unat_eq_iff)
qed

lemma hash_hex_inj:
  "(hex_EncodeToString (Rep_hash32 h) = hex_EncodeToString (Rep_hash32 h')) = (h = h')"
  using hex_EncodeToString_inj [of "Rep_hash32 h" "Rep_hash32 h'"]
  by (auto simp: Rep_hash32_inject)

lemma length_Rep_hash32: "length (Rep_hash32 h) = 32"
  using Rep_hash32 [of h] by simp

lemma getBlockKey_inj: "(getBlockKey h = getBlockKey h') = (h = h')"
  by (simp add: getBlockKey_def hash_hex_inj)

lemma getCommitKey_inj: "(getCommitKey h = getCommitKey h') = (h = h')"
  by (simp add: getCommitKey_def hash_hex_inj)

lemma getIndexKey_inj: "(getIndexKey n = getIndexKey n') = (n = n')"
  by (auto simp: getIndexKey_def dest: FormatUint_inj)

lemma getResponsesKey_inj: "(getResponsesKey n = getResponsesKey n') = (n = n')"
  by (auto simp: getResponsesKey_def dest: FormatUint_inj)

lemma getValidatorsKey_inj: "(getValidatorsKey n = getValidatorsKey n') = (n = n')"
  by (auto simp: getValidatorsKey_def dest: FormatUint_inj)

lemmas prefix_defs =
  blockPrefix_def indexPrefix_def commitPrefix_def statePrefix_def responsesPrefix_def
  validatorsPrefix_def

lemmas key_defs =
  getBlockKey_def getCommitKey_def getIndexKey_def getStateKey_def getResponsesKey_def
  getValidatorsKey_def

lemma key_classes_disjoint:
  "getBlockKey h \<noteq> getCommitKey h'"
  "getBlockKey h \<noteq> getIndexKey n"
  "getBlockKey h \<noteq> getStateKey"
  "getBlockKey h \<noteq> getResponsesKey n"
  "getBlockKey h \<noteq> getValidatorsKey n"
  "getCommitKey h \<noteq> getIndexKey n"
  "getCommitKey h \<noteq> getStateKey"
  "getCommitKey h \<noteq> getResponsesKey n"
  "getCommitKey h \<noteq> getValidatorsKey n"
  "getIndexKey n \<noteq> getStateKey"
  "getIndexKey n \<noteq> getResponsesKey n'"
  "getIndexKey n \<noteq> getValidatorsKey n'"
  "getStateKey \<noteq> getResponsesKey n"
  "getStateKey \<noteq> getValidatorsKey n"
  "getResponsesKey n \<noteq> getValidatorsKey n'"
  by (simp_all add: key_defs prefix_defs)

lemmas key_classes_distinct = key_classes_disjoint key_classes_disjoint [THEN not_sym]

lemmas key_eq_simps =
  getBlockKey_inj getCommitKey_inj getIndexKey_inj getResponsesKey_inj getValidatorsKey_inj
  key_classes_distinct

text \<open>
  C9. Key derivation is a function of the logical identifier alone: a block key is
  \<^verbatim>\<open>b/\<close> followed by the 64 lowercase hexadecimal characters of the hash, a commit key
  \<^verbatim>\<open>c/\<close> and the same characters, an index, responses or validators key is \<^verbatim>\<open>i/\<close>,
  \<^verbatim>\<open>r/\<close> or \<^verbatim>\<open>v/\<close> followed by the decimal height (reading the suffix back gives the
  height), and the chain state key is the bare \<^verbatim>\<open>s/\<close>. Within a class the key function
  is injective, and keys of two different classes are never equal.
\<close>

theorem key_derivation_deterministic_collision_free:
  fixes h h' :: hash32 and n n' :: uint64
  shows "getBlockKey h = ''b/'' @ hex_EncodeToString (Rep_hash32 h)
    \<and> getCommitKey h = ''c/'' @ hex_EncodeToString (Rep_hash32 h)
    \<and> getIndexKey n = ''i/'' @ FormatUint n
    \<and> getResponsesKey n = ''r/'' @ FormatUint n
    \<and> getValidatorsKey n = ''v/'' @ FormatUint n
    \<and> getStateKey = ''s/''
    \<and> length (hex_EncodeToString (Rep_hash32 h)) = 64
    \<and> set (hex_EncodeToString (Rep_hash32 h)) \<subseteq> set ''0123456789abcdef''
    \<and> parseDec (FormatUint n) = unat n
    \<and> (getBlockKey h = getBlockKey h') = (h = h')
    \<and> (getCommitKey h = getCommitKey h') = (h = h')
    \<and> (getIndexKey n = getIndexKey n') = (n = n')
    \<and> (getResponsesKey n = getResponsesKey n') = (n = n')
    \<and> (getValidatorsKey n = getValidatorsKey n') = (n = n')
    \<and> getBlockKey h \<noteq> getCommitKey h'
    \<and> getBlockKey h \<noteq> getIndexKey n
    \<and> getBlockKey h \<noteq> getStateKey
    \<and> getBlockKey h \<noteq> getResponsesKey n
    \<and> getBlockKey h \<noteq> getValidatorsKey n
    \<and> getCommitKey h \<noteq> getIndexKey n
    \<and> getCommitKey h \<noteq> getStateKey
    \<and> getCommitKey h \<noteq> getResponsesKey n
    \<and> getCommitKey h \<noteq> getValidatorsKey n
    \<and> getIndexKey n \<noteq> getStateKey
    \<and> getIndexKey n \<noteq> getResponsesKey n'
    \<and> getIndexKey n \<noteq> getValidatorsKey n'
    \<and> getStateKey \<noteq> getResponsesKey n
    \<and> getStateKey \<noteq> getValidatorsKey n
    \<and> getResponsesKey n \<noteq> getValidatorsKey n'"
proof -
  have fmt: "getBlockKey h = ''b/'' @ hex_EncodeToString (Rep_hash32 h)"
    "getCommitKey h = ''c/'' @ hex_EncodeToString (Rep_hash32 h)"
    "getIndexKey n = ''i/'' @ FormatUint n"
    "getResponsesKey n = ''r/'' @ FormatUint n"
    "getValidatorsKey n = ''v/'' @ FormatUint n"
    "getStateKey = ''s/''"
    by (simp_all add: key_defs prefix_defs)
  have len: "length (hex_EncodeToString (Rep_hash32 h)) = 64"
    by (simp add: length_hex_EncodeToString length_Rep_hash32)
  have chars: "set (hex_EncodeToString (Rep_hash32 h)) \<subseteq> set ''0123456789abcdef''"
    using hex_EncodeToString_chars [of "Rep_hash32 h"] by (simp only: hextable_def)
  note inj = getBlockKey_inj [of h h'] getCommitKey_inj [of h h'] getIndexKey_inj [of n n']
    getResponsesKey_inj [of n n'] getValidatorsKey_inj [of n n']
  show ?thesis
    by (intro conjI fmt len chars parseDec_FormatUint inj key_classes_disjoint)
qed

section \<open>Properties of the engine and of the store operations\<close>

lemma issue_simps [simp]:
  "entries (issue call d) = entries d"
  "badger (issue call d) = badger d"
  "faults (issue call d) = faults d"
  "journal (issue call d) = journal d @ [call]"
  by (simp_all add: issue_def)

lemmas engine_defs =
  ds_NewTransaction_def txn_Put_def txn_Commit_def txn_Discard_def multierr_Append_def

lemma New_simps: "db (New d) = d" "height (New d) = 0"
  by (simp_all add: New_def)

lemma ds_Get_cong:
  "entries d' = entries d \<Longrightarrow> faults d' = faults d \<Longrightarrow> ds_Get d' k = ds_Get d k"
  by (simp add: ds_Get_def)

lemma ds_Get_entry:
  "\<not> faults d (Get k) \<Longrightarrow> entries d k = Some v \<Longrightarrow> ds_Get d k = Inr v"
  by (simp add: ds_Get_def)

lemma ds_Get_absent:
  "\<not> faults d (Get k) \<Longrightarrow> entries d k = None \<Longrightarrow> ds_Get d k = Inl ErrNotFound"
  by (simp add: ds_Get_def)

lemma ds_Put_simps:
  "faults (fst (ds_Put d k v)) = faults d"
  "badger (fst (ds_Put d k v)) = badger d"
  "snd (ds_Put d k v) = None \<Longrightarrow> entries (fst (ds_Put d k v)) = (entries d)(k \<mapsto> v)"
  "snd (ds_Put d k v) \<noteq> None \<Longrightarrow> entries (fst (ds_Put d k v)) = entries d"
  by (simp_all add: ds_Put_def split: if_splits)

lemma uint64_of_int64_bits: "uint64_of_int64 x = x"
  by (simp add: uint64_of_int64_def)

lemma SetHeight_eq: "SetHeight s h = (if height s < h then s\<lparr>height := h\<rparr> else s)"
  by (simp add: SetHeight_def CompareAndSwapUint64_def Let_def)

lemma SetHeight_height: "height (SetHeight s h) = max (height s) h"
  by (auto simp: SetHeight_eq max_def)

lemma foldl_SetHeight_height: "height (foldl SetHeight s hs) = foldl max (height s) hs"
  by (induction hs arbitrary: s) (simp_all add: SetHeight_height)

lemma SaveBlock_height: "height (fst (SaveBlock c s block commit)) = height s"
  by (simp add: SaveBlock_def engine_defs Let_def split: sum.splits option.splits prod.splits)

lemma SaveBlock_faults: "faults (db (fst (SaveBlock c s block commit))) = faults (db s)"
  by (simp add: SaveBlock_def engine_defs Let_def split: sum.splits option.splits prod.splits)

lemma SaveBlock_badger: "badger (db (fst (SaveBlock c s block commit))) = badger (db s)"
  by (simp add: SaveBlock_def engine_defs Let_def split: sum.splits option.splits prod.splits)

lemma SaveBlock_error_entries:
  "snd (SaveBlock c s block commit) \<noteq> None \<Longrightarrow>
   entries (db (fst (SaveBlock c s block commit))) = entries (db s)"
  by (auto simp: SaveBlock_def engine_defs Let_def
      split: sum.splits option.splits prod.splits if_splits)

lemma SaveBlock_ok_entries:
  assumes "snd (SaveBlock c s block commit) = None"
  shows "\<exists>blockBlob commitBlob.
      Block_MarshalBinary c block = Inr blockBlob \<and>
      Commit_MarshalBinary c commit = Inr commitBlob \<and>
      entries (db (fst (SaveBlock c s block commit))) =
        (entries (db s))
          (NewKey (getBlockKey (Header_Hash c block)) \<mapsto> blockBlob,
           NewKey (getCommitKey (Header_Hash c block)) \<mapsto> commitBlob,
           NewKey (getIndexKey (Header_Height c block)) \<mapsto> Rep_hash32 (Header_Hash c block))"
  using assms
  by (auto simp: SaveBlock_def engine_defs Let_def apply_writes_def
      split: sum.splits option.splits prod.splits if_splits)

lemma SaveBlock_ok_calls:
  assumes "snd (SaveBlock c s block commit) = None"
  shows "\<exists>blockBlob commitBlob.
      Block_MarshalBinary c block = Inr blockBlob \<and>
      Commit_MarshalBinary c commit = Inr commitBlob \<and>
      calls_since s (fst (SaveBlock c s block commit)) =
        [NewTransaction,
         TxnPut (NewKey (getBlockKey (Header_Hash c block))) blockBlob,
         TxnPut (NewKey (getCommitKey (Header_Hash c block))) commitBlob,
         TxnPut (NewKey (getIndexKey (Header_Height c block))) (Rep_hash32 (Header_Hash c block)),
         TxnCommit]"
  using assms
  by (auto simp: SaveBlock_def engine_defs Let_def calls_since_def
      split: sum.splits option.splits prod.splits if_splits)

lemma SaveBlock_journal_prefix:
  "take (length (journal (db s))) (journal (db (fst (SaveBlock c s block commit)))) =
   journal (db s)"
  by (simp add: SaveBlock_def engine_defs Let_def split: sum.splits option.splits prod.splits)

lemma SaveBlock_staging_refused_discards:
  assumes "staging_refused (db s) (calls_since s (fst (SaveBlock c s block commit)))"
  shows "last (calls_since s (fst (SaveBlock c s block commit))) = TxnDiscard
    \<and> TxnCommit \<notin> set (calls_since s (fst (SaveBlock c s block commit)))"
  using assms
  by (auto simp: SaveBlock_def engine_defs Let_def calls_since_def staging_refused_def
      split: sum.splits option.splits prod.splits if_splits)

lemma SaveBlock_discard_iff:
  "(TxnDiscard \<in> set (calls_since s (fst (SaveBlock c s block commit)))) =
   staging_refused (db s) (calls_since s (fst (SaveBlock c s block commit)))"
  by (auto simp: SaveBlock_def engine_defs Let_def calls_since_def staging_refused_def
      split: sum.splits option.splits prod.splits if_splits)

text \<open>
  When the three writes are staged and the engine refuses the commit, \<^verbatim>\<open>SaveBlock\<close>
  returns the wrapped error at once: its last call is the commit, and it does not call
  \<^verbatim>\<open>Discard\<close>. That no entry appears then is the all-or-nothing commit of the engine.
\<close>

lemma SaveBlock_commit_refused_no_discard:
  assumes "Block_MarshalBinary c block = Inr blockBlob"
    and "Commit_MarshalBinary c commit = Inr commitBlob"
    and "badger (db s)" "\<not> faults (db s) NewTransaction"
    and "\<not> staging_refused (db s) (calls_since s (fst (SaveBlock c s block commit)))"
    and "faults (db s) TxnCommit"
  shows "snd (SaveBlock c s block commit) =
      Some (fmt_Errorf ''failed to commit transaction: %w'' EngineFailure)
    \<and> last (calls_since s (fst (SaveBlock c s block commit))) = TxnCommit
    \<and> TxnDiscard \<notin> set (calls_since s (fst (SaveBlock c s block commit)))"
  using assms
  by (auto simp: SaveBlock_def engine_defs Let_def calls_since_def staging_refused_def
      split: sum.splits option.splits prod.splits if_splits)

lemma SaveBlockResponses_height: "height (fst (SaveBlockResponses c s h responses)) = height s"
  by (simp add: SaveBlockResponses_def split: sum.splits prod.splits)

lemma UpdateState_height: "height (fst (UpdateState c s state)) = height s"
  by (simp add: UpdateState_def split: sum.splits prod.splits)

lemma SaveValidators_height: "height (fst (SaveValidators c s h validatorSet)) = height s"
  by (simp add: SaveValidators_def split: sum.splits prod.splits)

lemma LoadState_height:
  "height (fst (LoadState c s)) =
     (case ds_Get (db s) (NewKey getStateKey) of
        Inl err \<Rightarrow> height s
      | Inr blob \<Rightarrow>
          (case pbState_Unmarshal c blob of
             Inl err \<Rightarrow> height s
           | Inr pbState \<Rightarrow> uint64_of_int64 (LastBlockHeight c (fst (State_FromProto c pbState)))))"
  by (simp add: LoadState_def split: sum.splits prod.splits)

lemma LoadState_ok_height:
  "LoadState c s = (s', loaded, None) \<Longrightarrow>
   height s' = uint64_of_int64 (LastBlockHeight c loaded)"
  by (auto simp: LoadState_def split: sum.splits prod.splits)

lemma loads_cong:
  assumes "\<And>k. ds_Get (db s') k = ds_Get (db s) k"
  shows "LoadBlockByHash c s' hash = LoadBlockByHash c s hash"
    and "LoadCommitByHash c s' hash = LoadCommitByHash c s hash"
    and "LoadBlock c s' h = LoadBlock c s h"
    and "LoadCommit c s' h = LoadCommit c s h"
proof -
  have ix: "loadHashFromIndex s' n = loadHashFromIndex s n" for n
    by (simp add: loadHashFromIndex_def assms)
  have blk: "LoadBlockByHash c s' x = LoadBlockByHash c s x" for x
    by (simp add: LoadBlockByHash_def assms)
  have cmt: "LoadCommitByHash c s' x = LoadCommitByHash c s x" for x
    by (simp add: LoadCommitByHash_def assms)
  show "LoadBlockByHash c s' hash = LoadBlockByHash c s hash" by (rule blk)
  show "LoadCommitByHash c s' hash = LoadCommitByHash c s hash" by (rule cmt)
  show "LoadBlock c s' h = LoadBlock c s h" by (simp add: LoadBlock_def ix blk split: prod.splits option.splits)
  show "LoadCommit c s' h = LoadCommit c s h" by (simp add: LoadCommit_def ix cmt split: prod.splits option.splits)
qed

lemma loadHashFromIndex_hit:
  assumes "ds_Get (db s) (NewKey (getIndexKey h)) = Inr (Rep_hash32 hash)"
  shows "loadHashFromIndex s h = (hash, None)"
  using assms by (simp add: loadHashFromIndex_def length_Rep_hash32 Rep_hash32_inverse)

lemma loadHashFromIndex_absent:
  assumes "\<not> faults (db s) (Get (NewKey (getIndexKey h)))"
    and "entries (db s) (NewKey (getIndexKey h)) = None"
  shows "loadHashFromIndex s h =
    (zero_hash, Some (fmt_Errorf ''failed to load block hash for height %v: %w'' ErrNotFound))"
  using assms by (simp add: loadHashFromIndex_def ds_Get_def)

lemma loadHashFromIndex_bad_length:
  assumes "\<not> faults (db s) (Get (NewKey (getIndexKey h)))"
    and "entries (db s) (NewKey (getIndexKey h)) = Some blob" and "length blob \<noteq> 32"
  shows "loadHashFromIndex s h = (zero_hash, Some (errors_New ''invalid hash length''))"
  using assms by (simp add: loadHashFromIndex_def ds_Get_def)

lemma UpdateState_ok:
  assumes "UpdateState c s state = (s', None)"
  shows "\<exists>pbState data. State_ToProto c state = Inr pbState
      \<and> pbState_Marshal c pbState = Inr data
      \<and> entries (db s') = (entries (db s))(NewKey getStateKey \<mapsto> data)
      \<and> faults (db s') = faults (db s)"
  using assms
  by (auto simp: UpdateState_def ds_Put_def split: sum.splits prod.splits if_splits)

lemma LoadState_after_UpdateState:
  assumes rt: "state_roundtrips c state"
    and upd: "UpdateState c s state = (s', None)"
    and rd: "\<not> faults (db s) (Get (NewKey getStateKey))"
  shows "snd (LoadState c s') = (state, None)"
proof -
  from UpdateState_ok [OF upd] obtain pbState data where
    a: "State_ToProto c state = Inr pbState" and b: "pbState_Marshal c pbState = Inr data"
    and ent: "entries (db s') = (entries (db s))(NewKey getStateKey \<mapsto> data)"
    and flt: "faults (db s') = faults (db s)"
    by blast
  have get: "ds_Get (db s') (NewKey getStateKey) = Inr data"
    using rd by (intro ds_Get_entry) (simp_all add: ent flt)
  from rt a b obtain pbState' where
    c: "pbState_Unmarshal c data = Inr pbState'" and d: "State_FromProto c pbState' = (state, None)"
    by (auto simp: state_roundtrips_def split: sum.splits)
  show ?thesis by (simp add: LoadState_def get c d)
qed

section \<open>The example instances, run\<close>

lemma holding_simps:
  "entries (db (holding m)) = m"
  "faults (db (holding m)) call = False"
  "height (holding m) = 0"
  by (simp_all add: holding_def New_def healthy_def)

lemma Rep_toy_hash: "Rep_hash32 (toy_hash h) = replicate 32 (ucast h)"
  by (simp add: toy_hash_def Abs_hash32_inverse)

lemma toy_SaveBlock_ok: "snd (SaveBlock toy_blocks (New healthy) (10, [7]) [1]) = None"
  by (simp add: SaveBlock_def engine_defs Let_def New_def healthy_def toy_blocks_def issue_def)

lemma toy_SaveBlock_refused:
  "SaveBlock toy_blocks (New (refusing is_TxnPut)) (10, []) [1] =
     (\<lparr>db = \<lparr>entries = Map.empty, badger = True, faults = is_TxnPut,
        journal =
          [NewTransaction,
           TxnPut (NewKey (getBlockKey (toy_hash 10))) [10],
           TxnPut (NewKey (getCommitKey (toy_hash 10))) [1],
           TxnPut (NewKey (getIndexKey 10)) (Rep_hash32 (toy_hash 10)),
           TxnDiscard]\<rparr>,
       height = 0\<rparr>,
      Some (multiError [EngineFailure, EngineFailure, EngineFailure]))"
  by (simp add: SaveBlock_def engine_defs Let_def New_def refusing_def toy_blocks_def issue_def)

lemma toy_SaveBlock_commit_refused:
  "SaveBlock toy_blocks (New (refusing (\<lambda>call. call = TxnCommit))) (10, []) [1] =
     (\<lparr>db = \<lparr>entries = Map.empty, badger = True, faults = (\<lambda>call. call = TxnCommit),
        journal =
          [NewTransaction,
           TxnPut (NewKey (getBlockKey (toy_hash 10))) [10],
           TxnPut (NewKey (getCommitKey (toy_hash 10))) [1],
           TxnPut (NewKey (getIndexKey 10)) (Rep_hash32 (toy_hash 10)),
           TxnCommit]\<rparr>,
       height = 0\<rparr>,
      Some (fmt_Errorf ''failed to commit transaction: %w'' EngineFailure))"
  by (simp add: SaveBlock_def engine_defs Let_def New_def refusing_def toy_blocks_def issue_def)

lemma toy_UpdateState:
  "UpdateState toy_states (New healthy) 5 =
     (\<lparr>db = \<lparr>entries = [NewKey getStateKey \<mapsto> [5]], badger = True, faults = (\<lambda>call. False),
        journal = [Put (NewKey getStateKey) [5]]\<rparr>,
       height = 0\<rparr>, None)"
  by (simp add: UpdateState_def ds_Put_def New_def healthy_def toy_states_def issue_def)

lemma toy_LoadState:
  "LoadState toy_states (SetHeight (fst (UpdateState toy_states (New healthy) 5)) 10) =
     ((SetHeight (fst (UpdateState toy_states (New healthy) 5)) 10)\<lparr>height := 5\<rparr>, 5, None)"
  unfolding toy_UpdateState
  by (simp add: SetHeight_eq LoadState_def ds_Get_def toy_states_def uint64_of_int64_bits)

lemma toy_state_roundtrips: "state_roundtrips toy_states 5" "state_roundtrips toy_states 9"
  by (simp_all add: state_roundtrips_def toy_states_def)

section \<open>The height counter\<close>

text \<open>
  C1. The claim: a successful \<^verbatim>\<open>SaveBlock\<close> raises the height counter to the maximum of
  its value and the height of the block, so that the counter is the maximum height
  offered so far. The comment on \<^verbatim>\<open>SaveBlock\<close> says the same ("Stored height is updated if
  block height is greater than stored value"), but the body never touches the counter
  (\<open>SaveBlock_height\<close>): on a fresh store over an engine that refuses nothing, saving a
  block of height 10 succeeds and the counter is still 0.
\<close>

theorem SaveBlock_does_not_raise_height:
  "snd (SaveBlock toy_blocks (New healthy) (10, []) [1]) = None
   \<and> Header_Height toy_blocks (10, []) = 10
   \<and> Height (New healthy) = 0
   \<and> Height (fst (SaveBlock toy_blocks (New healthy) (10, []) [1])) = 0"
proof -
  have "snd (SaveBlock toy_blocks (New healthy) (10, []) [1]) = None"
    by (simp add: SaveBlock_def engine_defs Let_def New_def healthy_def toy_blocks_def issue_def)
  moreover have "Header_Height toy_blocks (10, []) = 10"
    by (simp add: toy_blocks_def)
  moreover have "Height (New healthy) = 0"
    by (simp add: Height_def New_def)
  moreover have "Height (fst (SaveBlock toy_blocks (New healthy) (10, []) [1])) = 0"
    by (simp add: Height_def SaveBlock_height New_def)
  ultimately show ?thesis by blast
qed

text \<open>
  C5. After \<^verbatim>\<open>SetHeight(h)\<close> the counter is the maximum of its previous value and \<open>h\<close>:
  the call writes \<open>h\<close> when \<open>h\<close> is strictly greater than the counter and changes nothing
  otherwise. \<^verbatim>\<open>Height\<close> reads the counter alone: the engine is not touched by
  \<^verbatim>\<open>SetHeight\<close>, and replacing the engine does not change what \<^verbatim>\<open>Height\<close> returns.
  (Calls run one after the other here; interleavings of concurrent calls are not modelled.)
\<close>

theorem SetHeight_takes_maximum:
  "Height (SetHeight s h) = max (Height s) h
   \<and> SetHeight s h = (if Height s < h then s\<lparr>height := h\<rparr> else s)
   \<and> db (SetHeight s h) = db s
   \<and> Height (s\<lparr>db := d\<rparr>) = Height s"
  by (simp add: Height_def SetHeight_height SetHeight_eq)

text \<open>
  C3, as stated, fails: \<^verbatim>\<open>LoadState\<close> stores the last block height of the loaded state
  into the counter without comparing. With the counter at 10 and a stored state whose
  last block height is 5, \<^verbatim>\<open>LoadState\<close> lowers the counter to 5.
\<close>

theorem LoadState_lowers_height_counterexample:
  "\<not> Height (fst (UpdateState toy_states (SetHeight (New healthy) 10) 5))
     \<le> Height (fst (LoadState toy_states
          (fst (UpdateState toy_states (SetHeight (New healthy) 10) 5))))"
proof -
  let ?s = "fst (UpdateState toy_states (SetHeight (New healthy) 10) 5)"
  have get: "ds_Get (db ?s) (NewKey getStateKey) = Inr [5]"
    by (simp add: UpdateState_def toy_states_def ds_Put_def ds_Get_def SetHeight_eq New_def
        healthy_def)
  have "Height ?s = 10"
    by (simp add: Height_def UpdateState_height SetHeight_height New_def)
  moreover have "Height (fst (LoadState toy_states ?s)) = 5"
    unfolding Height_def LoadState_height get
    by (simp add: toy_states_def uint64_of_int64_bits)
  ultimately show ?thesis by simp
qed

text \<open>
  C3, amended. Every operation other than \<^verbatim>\<open>LoadState\<close> keeps the counter from going down:
  \<^verbatim>\<open>SetHeight\<close> sets it to the maximum of its value and the offered value, also along any
  sequence of offers, and \<^verbatim>\<open>SaveBlock\<close>, \<^verbatim>\<open>SaveBlockResponses\<close>, \<^verbatim>\<open>UpdateState\<close> and
  \<^verbatim>\<open>SaveValidators\<close> never lower it (the other load operations return no store: they
  cannot change it). \<^verbatim>\<open>LoadState\<close> is the exception: when it returns the stored state,
  the counter is the last block height of that state, which may be lower than it was.
\<close>

theorem height_never_lowered_except_LoadState:
  "height (SetHeight s h) = max (height s) h
   \<and> height s \<le> height (SetHeight s h)
   \<and> height (foldl SetHeight s hs) = foldl max (height s) hs
   \<and> height s \<le> height (fst (SaveBlock cb s block commit))
   \<and> height s \<le> height (fst (SaveBlockResponses cr s h responses))
   \<and> height s \<le> height (fst (UpdateState cs s state))
   \<and> height s \<le> height (fst (SaveValidators cv s h validatorSet))
   \<and> (LoadState cs s = (s', loaded, None) \<longrightarrow>
         height s' = uint64_of_int64 (LastBlockHeight cs loaded))"
  by (simp add: SetHeight_height foldl_SetHeight_height SaveBlock_height
      SaveBlockResponses_height UpdateState_height SaveValidators_height LoadState_ok_height)

text \<open>
  The witness: the store whose counter is 10 and whose state has last block height 5;
  \<^verbatim>\<open>LoadState\<close> returns the state and the counter is 5, below 10.
\<close>

theorem height_never_lowered_except_LoadState_witness:
  "LoadState toy_states (SetHeight (fst (UpdateState toy_states (New healthy) 5)) 10) =
     ((SetHeight (fst (UpdateState toy_states (New healthy) 5)) 10)\<lparr>height := 5\<rparr>, 5, None)
   \<and> height ((SetHeight (fst (UpdateState toy_states (New healthy) 5)) 10)\<lparr>height := 5\<rparr>) =
       uint64_of_int64 (LastBlockHeight toy_states 5)
   \<and> height (SetHeight (fst (UpdateState toy_states (New healthy) 5)) 10) = 10
   \<and> uint64_of_int64 (LastBlockHeight toy_states 5) = 5"
proof -
  let ?s = "SetHeight (fst (UpdateState toy_states (New healthy) 5)) 10"
  have ten: "height ?s = 10"
    unfolding toy_UpdateState by (simp add: SetHeight_height)
  have five: "uint64_of_int64 (LastBlockHeight toy_states 5) = 5"
    by (simp add: toy_states_def uint64_of_int64_bits)
  note reseeded = height_never_lowered_except_LoadState
    [where s = ?s and cs = toy_states and s' = "?s\<lparr>height := 5\<rparr>" and loaded = 5,
      THEN conjunct2, THEN conjunct2, THEN conjunct2, THEN conjunct2, THEN conjunct2,
      THEN conjunct2, THEN conjunct2]
  from reseeded toy_LoadState
  have "height (?s\<lparr>height := 5\<rparr>) = uint64_of_int64 (LastBlockHeight toy_states 5)"
    by (rule mp)
  with toy_LoadState ten five show ?thesis by blast
qed

text \<open>
  C7. When \<^verbatim>\<open>LoadState\<close> returns a state and no error, the state is the decoding of the
  bytes stored under the state key, and the counter is the last block height of that
  state, converted to \<^verbatim>\<open>uint64\<close> (the same 64 bits). The value does not depend on the
  counter before the call: from any other counter \<open>h0\<close> the result is the same.
\<close>

theorem LoadState_reseeds_height:
  assumes "LoadState c s = (s', state, None)"
  shows "Height s' = uint64_of_int64 (LastBlockHeight c state)
    \<and> uint64_of_int64 (LastBlockHeight c state) = LastBlockHeight c state
    \<and> Height (fst (LoadState c (s\<lparr>height := h0\<rparr>))) = uint64_of_int64 (LastBlockHeight c state)
    \<and> db s' = db s
    \<and> (\<exists>blob pbState. ds_Get (db s) (NewKey getStateKey) = Inr blob
          \<and> pbState_Unmarshal c blob = Inr pbState
          \<and> State_FromProto c pbState = (state, None))"
  using assms
  by (auto simp: LoadState_def Height_def uint64_of_int64_bits
      split: sum.splits prod.splits)

text \<open>
  The witness: a store holding a state of last block height 5, its counter raised to 10;
  \<^verbatim>\<open>LoadState\<close> returns the state and the counter is 5, as it is from a counter of 77.
\<close>

theorem LoadState_reseeds_height_witness:
  "LoadState toy_states (SetHeight (fst (UpdateState toy_states (New healthy) 5)) 10) =
     ((SetHeight (fst (UpdateState toy_states (New healthy) 5)) 10)\<lparr>height := 5\<rparr>, 5, None)
   \<and> Height (SetHeight (fst (UpdateState toy_states (New healthy) 5)) 10) = 10
   \<and> Height ((SetHeight (fst (UpdateState toy_states (New healthy) 5)) 10)\<lparr>height := 5\<rparr>) = 5
   \<and> Height (fst (LoadState toy_states
       ((SetHeight (fst (UpdateState toy_states (New healthy) 5)) 10)\<lparr>height := 77\<rparr>))) = 5"
proof -
  let ?s = "SetHeight (fst (UpdateState toy_states (New healthy) 5)) 10"
  have run: "LoadState toy_states ?s = (?s\<lparr>height := 5\<rparr>, 5, None)"
    unfolding toy_UpdateState
    by (simp add: SetHeight_eq LoadState_def ds_Get_def toy_states_def uint64_of_int64_bits)
  have ten: "Height ?s = 10"
    unfolding toy_UpdateState by (simp add: Height_def SetHeight_height)
  have lbh: "LastBlockHeight toy_states 5 = 5"
    by (simp add: toy_states_def)
  from LoadState_reseeds_height [OF run, of 77] run ten show ?thesis
    by (simp add: lbh uint64_of_int64_bits)
qed

section \<open>Saving and loading blocks\<close>

text \<open>
  C2, as stated, fails on one path. The claim has every error return discard the batch
  it built. When the three writes are staged and the engine refuses the commit,
  \<^verbatim>\<open>SaveBlock\<close> returns the wrapped error at once: its calls end with the commit and
  \<^verbatim>\<open>Discard\<close> is not among them.
\<close>

theorem SaveBlock_commit_failure_not_discarded_counterexample:
  "snd (SaveBlock toy_blocks (New (refusing (\<lambda>call. call = TxnCommit))) (10, []) [1]) =
     Some (fmt_Errorf ''failed to commit transaction: %w'' EngineFailure)
   \<and> calls_since (New (refusing (\<lambda>call. call = TxnCommit)))
       (fst (SaveBlock toy_blocks (New (refusing (\<lambda>call. call = TxnCommit))) (10, []) [1])) =
       [NewTransaction,
        TxnPut (NewKey (getBlockKey (toy_hash 10))) [10],
        TxnPut (NewKey (getCommitKey (toy_hash 10))) [1],
        TxnPut (NewKey (getIndexKey 10)) (Rep_hash32 (toy_hash 10)),
        TxnCommit]
   \<and> TxnDiscard \<notin> set (calls_since (New (refusing (\<lambda>call. call = TxnCommit)))
       (fst (SaveBlock toy_blocks (New (refusing (\<lambda>call. call = TxnCommit))) (10, []) [1])))"
  unfolding toy_SaveBlock_commit_refused
  by (simp add: calls_since_def New_simps refusing_def)

text \<open>
  C2, amended. \<^verbatim>\<open>SaveBlock\<close> writes the three entries through one transaction. When it
  returns no error, the engine calls it made are: open a transaction, stage the block,
  the commit and the index entry, commit; and the entries of the engine are the old ones
  with these three written. When it returns an error (a marshal failure, an engine of
  another type, a refused transaction, a refused staging call or a refused commit), the
  engine has the entries it had, so every read and every load returns what it returned
  before. \<^verbatim>\<open>SaveBlock\<close> calls \<^verbatim>\<open>Discard\<close> exactly when a staging call was refused: then
  \<^verbatim>\<open>Discard\<close> is its last call and it never calls commit. On the other error returns,
  a refused commit among them, it does not call \<^verbatim>\<open>Discard\<close>.
\<close>

theorem SaveBlock_atomic:
  assumes "SaveBlock c s block commit = (s', result)"
  shows "(result = None \<longrightarrow>
      (\<exists>blockBlob commitBlob.
         Block_MarshalBinary c block = Inr blockBlob \<and>
         Commit_MarshalBinary c commit = Inr commitBlob \<and>
         entries (db s') =
           (entries (db s))
             (NewKey (getBlockKey (Header_Hash c block)) \<mapsto> blockBlob,
              NewKey (getCommitKey (Header_Hash c block)) \<mapsto> commitBlob,
              NewKey (getIndexKey (Header_Height c block)) \<mapsto>
                Rep_hash32 (Header_Hash c block)) \<and>
         calls_since s s' =
           [NewTransaction,
            TxnPut (NewKey (getBlockKey (Header_Hash c block))) blockBlob,
            TxnPut (NewKey (getCommitKey (Header_Hash c block))) commitBlob,
            TxnPut (NewKey (getIndexKey (Header_Height c block)))
              (Rep_hash32 (Header_Hash c block)),
            TxnCommit]))
    \<and> (result \<noteq> None \<longrightarrow>
      entries (db s') = entries (db s)
      \<and> ds_Get (db s') k = ds_Get (db s) k
      \<and> LoadBlock c s' h = LoadBlock c s h
      \<and> LoadBlockByHash c s' hash = LoadBlockByHash c s hash
      \<and> LoadCommit c s' h = LoadCommit c s h
      \<and> LoadCommitByHash c s' hash = LoadCommitByHash c s hash
      \<and> (staging_refused (db s) (calls_since s s') \<longrightarrow>
           last (calls_since s s') = TxnDiscard \<and> TxnCommit \<notin> set (calls_since s s'))
      \<and> (TxnDiscard \<in> set (calls_since s s')) = staging_refused (db s) (calls_since s s'))"
proof -
  from assms have s': "s' = fst (SaveBlock c s block commit)"
    and result: "result = snd (SaveBlock c s block commit)"
    by simp_all
  have good: "\<exists>blockBlob commitBlob.
      Block_MarshalBinary c block = Inr blockBlob \<and>
      Commit_MarshalBinary c commit = Inr commitBlob \<and>
      entries (db s') =
        (entries (db s))
          (NewKey (getBlockKey (Header_Hash c block)) \<mapsto> blockBlob,
           NewKey (getCommitKey (Header_Hash c block)) \<mapsto> commitBlob,
           NewKey (getIndexKey (Header_Height c block)) \<mapsto> Rep_hash32 (Header_Hash c block)) \<and>
      calls_since s s' =
        [NewTransaction,
         TxnPut (NewKey (getBlockKey (Header_Hash c block))) blockBlob,
         TxnPut (NewKey (getCommitKey (Header_Hash c block))) commitBlob,
         TxnPut (NewKey (getIndexKey (Header_Height c block))) (Rep_hash32 (Header_Hash c block)),
         TxnCommit]"
    if ok: "result = None"
  proof -
    from ok have ok': "snd (SaveBlock c s block commit) = None"
      by (simp add: result)
    from SaveBlock_ok_entries [OF ok'] SaveBlock_ok_calls [OF ok'] show ?thesis
      unfolding s' by fastforce
  qed
  have bad: "entries (db s') = entries (db s)
      \<and> ds_Get (db s') k = ds_Get (db s) k
      \<and> LoadBlock c s' h = LoadBlock c s h
      \<and> LoadBlockByHash c s' hash = LoadBlockByHash c s hash
      \<and> LoadCommit c s' h = LoadCommit c s h
      \<and> LoadCommitByHash c s' hash = LoadCommitByHash c s hash
      \<and> (staging_refused (db s) (calls_since s s') \<longrightarrow>
           last (calls_since s s') = TxnDiscard \<and> TxnCommit \<notin> set (calls_since s s'))
      \<and> (TxnDiscard \<in> set (calls_since s s')) = staging_refused (db s) (calls_since s s')"
    if failed: "result \<noteq> None"
  proof -
    from failed have failed': "snd (SaveBlock c s block commit) \<noteq> None"
      by (simp add: result)
    have ent: "entries (db s') = entries (db s)"
      unfolding s' using failed' by (rule SaveBlock_error_entries)
    have flt: "faults (db s') = faults (db s)"
      unfolding s' by (rule SaveBlock_faults)
    have get: "ds_Get (db s') x = ds_Get (db s) x" for x
      using ent flt by (rule ds_Get_cong)
    have disc: "staging_refused (db s) (calls_since s s') \<longrightarrow>
        last (calls_since s s') = TxnDiscard \<and> TxnCommit \<notin> set (calls_since s s')"
      unfolding s' using SaveBlock_staging_refused_discards [of s c block commit] by blast
    have iff: "(TxnDiscard \<in> set (calls_since s s')) =
        staging_refused (db s) (calls_since s s')"
      unfolding s' by (rule SaveBlock_discard_iff)
    show ?thesis
      using ent get loads_cong [of s' s, OF get] disc iff by blast
  qed
  from good bad show ?thesis by blast
qed

text \<open>
  The witness: a save that succeeds on an engine that refuses nothing; a save on an
  engine that refuses every staging call, which fails, leaves no entry and ends with
  \<^verbatim>\<open>Discard\<close>; and a save on an engine that refuses the commit, which fails, leaves no
  entry and does not call \<^verbatim>\<open>Discard\<close>.
\<close>

theorem SaveBlock_atomic_witness:
  "snd (SaveBlock toy_blocks (New healthy) (10, [7]) [1]) = None
   \<and> entries (db (fst (SaveBlock toy_blocks (New healthy) (10, [7]) [1]))) =
       [NewKey (getBlockKey (toy_hash 10)) \<mapsto> [10, 7],
        NewKey (getCommitKey (toy_hash 10)) \<mapsto> [1],
        NewKey (getIndexKey 10) \<mapsto> Rep_hash32 (toy_hash 10)]
   \<and> snd (SaveBlock toy_blocks (New (refusing is_TxnPut)) (10, []) [1]) =
       Some (multiError [EngineFailure, EngineFailure, EngineFailure])
   \<and> entries (db (fst (SaveBlock toy_blocks (New (refusing is_TxnPut)) (10, []) [1]))) =
       entries (db (New (refusing is_TxnPut)))
   \<and> staging_refused (db (New (refusing is_TxnPut)))
       (calls_since (New (refusing is_TxnPut))
         (fst (SaveBlock toy_blocks (New (refusing is_TxnPut)) (10, []) [1])))
   \<and> last (calls_since (New (refusing is_TxnPut))
       (fst (SaveBlock toy_blocks (New (refusing is_TxnPut)) (10, []) [1]))) = TxnDiscard
   \<and> snd (SaveBlock toy_blocks (New (refusing (\<lambda>call. call = TxnCommit))) (10, []) [1]) =
       Some (fmt_Errorf ''failed to commit transaction: %w'' EngineFailure)
   \<and> entries (db (fst (SaveBlock toy_blocks (New (refusing (\<lambda>call. call = TxnCommit)))
       (10, []) [1]))) = entries (db (New (refusing (\<lambda>call. call = TxnCommit))))
   \<and> TxnDiscard \<notin> set (calls_since (New (refusing (\<lambda>call. call = TxnCommit)))
       (fst (SaveBlock toy_blocks (New (refusing (\<lambda>call. call = TxnCommit))) (10, []) [1])))"
proof -
  let ?g = "SaveBlock toy_blocks (New healthy) (10, [7]) [1]"
  have ok: "snd ?g = None"
    by (rule toy_SaveBlock_ok)
  then have run_ok: "?g = (fst ?g, None)"
    by (simp add: prod_eq_iff)
  have "entries (db (fst ?g)) =
      [NewKey (getBlockKey (toy_hash 10)) \<mapsto> [10, 7],
       NewKey (getCommitKey (toy_hash 10)) \<mapsto> [1],
       NewKey (getIndexKey 10) \<mapsto> Rep_hash32 (toy_hash 10)]"
    using SaveBlock_atomic [OF run_ok]
    by (simp add: toy_blocks_def New_simps healthy_def)
  note good = ok this
  let ?s = "New (refusing is_TxnPut)"
  let ?r = "SaveBlock toy_blocks ?s (10, []) [1]"
  have err: "snd ?r = Some (multiError [EngineFailure, EngineFailure, EngineFailure])"
    by (simp add: toy_SaveBlock_refused)
  then have run: "?r = (fst ?r, Some (multiError [EngineFailure, EngineFailure, EngineFailure]))"
    by (simp add: prod_eq_iff)
  have refused: "staging_refused (db ?s) (calls_since ?s (fst ?r))"
    unfolding toy_SaveBlock_refused
    by (simp add: staging_refused_def calls_since_def New_simps refusing_def)
  note staged = SaveBlock_atomic [OF run] err refused
  let ?t = "New (refusing (\<lambda>call. call = TxnCommit))"
  let ?q = "SaveBlock toy_blocks ?t (10, []) [1]"
  have errc: "snd ?q = Some (fmt_Errorf ''failed to commit transaction: %w'' EngineFailure)"
    by (simp add: toy_SaveBlock_commit_refused)
  then have runc:
    "?q = (fst ?q, Some (fmt_Errorf ''failed to commit transaction: %w'' EngineFailure))"
    by (simp add: prod_eq_iff)
  have accepted: "\<not> staging_refused (db ?t) (calls_since ?t (fst ?q))"
    unfolding toy_SaveBlock_commit_refused
    by (simp add: staging_refused_def calls_since_def New_simps refusing_def)
  from SaveBlock_atomic [OF runc] errc accepted staged good show ?thesis by blast
qed

text \<open>
  C4. After a \<^verbatim>\<open>SaveBlock\<close> that returns no error, of a block and a commit whose
  encodings decode to themselves, and with an engine that answers the three reads,
  \<^verbatim>\<open>LoadBlock\<close> at the height of the block and \<^verbatim>\<open>LoadBlockByHash\<close> at its hash return the
  block, and \<^verbatim>\<open>LoadCommit\<close> and \<^verbatim>\<open>LoadCommitByHash\<close> return the commit.
\<close>

theorem SaveBlock_then_Load_roundtrip:
  assumes saved: "SaveBlock c s block commit = (s', None)"
    and "Block_MarshalBinary c block = Inr blockBlob"
    and "Block_UnmarshalBinary c blockBlob = Inr block"
    and "Commit_MarshalBinary c commit = Inr commitBlob"
    and "Commit_UnmarshalBinary c commitBlob = Inr commit"
    and "\<not> faults (db s) (Get (NewKey (getIndexKey (Header_Height c block))))"
    and "\<not> faults (db s) (Get (NewKey (getBlockKey (Header_Hash c block))))"
    and "\<not> faults (db s) (Get (NewKey (getCommitKey (Header_Hash c block))))"
  shows "LoadBlock c s' (Header_Height c block) = (Some block, None)
    \<and> LoadBlockByHash c s' (Header_Hash c block) = (Some block, None)
    \<and> LoadCommit c s' (Header_Height c block) = (Some commit, None)
    \<and> LoadCommitByHash c s' (Header_Hash c block) = (Some commit, None)"
proof -
  let ?hash = "Header_Hash c block"
  let ?kb = "NewKey (getBlockKey ?hash)"
  let ?kc = "NewKey (getCommitKey ?hash)"
  let ?ki = "NewKey (getIndexKey (Header_Height c block))"
  from saved have s': "s' = fst (SaveBlock c s block commit)"
    and ok: "snd (SaveBlock c s block commit) = None"
    by simp_all
  from SaveBlock_ok_entries [OF ok] assms(2,4)
  have ent: "entries (db s') =
      (entries (db s))(?kb \<mapsto> blockBlob, ?kc \<mapsto> commitBlob, ?ki \<mapsto> Rep_hash32 ?hash)"
    unfolding s' by simp
  have flt: "faults (db s') = faults (db s)"
    unfolding s' by (rule SaveBlock_faults)
  have "ds_Get (db s') ?ki = Inr (Rep_hash32 ?hash)"
    using assms(6) by (intro ds_Get_entry) (simp_all add: flt ent)
  then have idx: "loadHashFromIndex s' (Header_Height c block) = (?hash, None)"
    by (rule loadHashFromIndex_hit)
  have gb: "ds_Get (db s') ?kb = Inr blockBlob"
    using assms(7) by (intro ds_Get_entry) (simp_all add: flt ent key_classes_distinct)
  have gc: "ds_Get (db s') ?kc = Inr commitBlob"
    using assms(8) by (intro ds_Get_entry) (simp_all add: flt ent key_classes_distinct)
  have byhash: "LoadBlockByHash c s' ?hash = (Some block, None)"
    by (simp add: LoadBlockByHash_def gb assms(3))
  have cbyhash: "LoadCommitByHash c s' ?hash = (Some commit, None)"
    by (simp add: LoadCommitByHash_def gc assms(5))
  have "LoadBlock c s' (Header_Height c block) = (Some block, None)"
    by (simp add: LoadBlock_def idx byhash)
  moreover have "LoadCommit c s' (Header_Height c block) = (Some commit, None)"
    by (simp add: LoadCommit_def idx cbyhash)
  ultimately show ?thesis using byhash cbyhash by blast
qed

text \<open>
  The witness: a block of height 10 with one byte of payload, saved on an empty engine.
\<close>

theorem SaveBlock_then_Load_roundtrip_witness:
  "snd (SaveBlock toy_blocks (New healthy) (10, [7]) [1]) = None
   \<and> LoadBlock toy_blocks (fst (SaveBlock toy_blocks (New healthy) (10, [7]) [1])) 10 =
       (Some (10, [7]), None)
   \<and> LoadBlockByHash toy_blocks (fst (SaveBlock toy_blocks (New healthy) (10, [7]) [1]))
       (toy_hash 10) = (Some (10, [7]), None)
   \<and> LoadCommit toy_blocks (fst (SaveBlock toy_blocks (New healthy) (10, [7]) [1])) 10 =
       (Some [1], None)
   \<and> LoadCommitByHash toy_blocks (fst (SaveBlock toy_blocks (New healthy) (10, [7]) [1]))
       (toy_hash 10) = (Some [1], None)"
proof -
  let ?r = "SaveBlock toy_blocks (New healthy) (10, [7]) [1]"
  have run: "?r = (fst ?r, None)"
    using toy_SaveBlock_ok by (simp add: prod_eq_iff)
  have "LoadBlock toy_blocks (fst ?r) (Header_Height toy_blocks (10, [7])) =
      (Some (10, [7]), None)
    \<and> LoadBlockByHash toy_blocks (fst ?r) (Header_Hash toy_blocks (10, [7])) =
      (Some (10, [7]), None)
    \<and> LoadCommit toy_blocks (fst ?r) (Header_Height toy_blocks (10, [7])) = (Some [1], None)
    \<and> LoadCommitByHash toy_blocks (fst ?r) (Header_Hash toy_blocks (10, [7])) =
      (Some [1], None)"
    by (rule SaveBlock_then_Load_roundtrip [OF run, of "[10, 7]" "[1]"])
      (simp_all add: toy_blocks_def New_def healthy_def)
  then show ?thesis
    using toy_SaveBlock_ok by (simp add: toy_blocks_def)
qed

section \<open>Loads that fail\<close>

text \<open>
  C6. On an engine that answers reads: \<^verbatim>\<open>LoadBlock\<close> and \<^verbatim>\<open>LoadCommit\<close> at a height with
  no index entry, \<^verbatim>\<open>LoadBlock\<close> at a height whose index entry names a hash with no block
  entry, \<^verbatim>\<open>LoadCommit\<close> at a height whose index entry names a hash with no commit entry,
  and \<^verbatim>\<open>LoadBlockResponses\<close> and \<^verbatim>\<open>LoadValidators\<close> at a height with no entry, return
  no record and an error that wraps \<^verbatim>\<open>ds.ErrNotFound\<close> (no codec is called). An index entry
  whose value is not 32 bytes long makes \<^verbatim>\<open>LoadBlock\<close> and \<^verbatim>\<open>LoadCommit\<close> fail with the
  invalid hash length error, which is not \<^verbatim>\<open>ds.ErrNotFound\<close>.
\<close>

theorem loads_of_absent_entries_fail_NotFound:
  assumes reads: "\<And>k. \<not> faults (db s) (Get k)"
  shows
   "(entries (db s) (NewKey (getIndexKey h1)) = None \<longrightarrow>
       LoadBlock cb s h1 =
         (None, Some (fmt_Errorf ''failed to load hash from index: %w''
            (fmt_Errorf ''failed to load block hash for height %v: %w'' ErrNotFound)))
     \<and> LoadCommit cb s h1 =
         (None, Some (fmt_Errorf ''failed to load hash from index: %w''
            (fmt_Errorf ''failed to load block hash for height %v: %w'' ErrNotFound))))
    \<and> (entries (db s) (NewKey (getIndexKey h2)) = Some (Rep_hash32 hash2)
       \<and> entries (db s) (NewKey (getBlockKey hash2)) = None \<longrightarrow>
       LoadBlock cb s h2 = (None, Some (fmt_Errorf ''failed to load block data: %w'' ErrNotFound)))
    \<and> (entries (db s) (NewKey (getIndexKey h3)) = Some (Rep_hash32 hash3)
       \<and> entries (db s) (NewKey (getCommitKey hash3)) = None \<longrightarrow>
       LoadCommit cb s h3 =
         (None, Some (fmt_Errorf ''failed to retrieve commit from hash %v: %w'' ErrNotFound)))
    \<and> (entries (db s) (NewKey (getResponsesKey h4)) = None \<longrightarrow>
       LoadBlockResponses cr s h4 =
         (None, Some (fmt_Errorf ''failed to retrieve block results from height %v: %w''
            ErrNotFound)))
    \<and> (entries (db s) (NewKey (getValidatorsKey h5)) = None \<longrightarrow>
       LoadValidators cv s h5 =
         (None, Some (fmt_Errorf ''failed to load Validators for height %v: %w'' ErrNotFound)))
    \<and> (entries (db s) (NewKey (getIndexKey h6)) = Some blob \<and> length blob \<noteq> 32 \<longrightarrow>
       LoadBlock cb s h6 =
         (None, Some (fmt_Errorf ''failed to load hash from index: %w''
            (errors_New ''invalid hash length'')))
     \<and> LoadCommit cb s h6 =
         (None, Some (fmt_Errorf ''failed to load hash from index: %w''
            (errors_New ''invalid hash length''))))
    \<and> errors_Is (fmt_Errorf ''failed to load hash from index: %w''
         (fmt_Errorf ''failed to load block hash for height %v: %w'' ErrNotFound)) ErrNotFound
    \<and> errors_Is (fmt_Errorf ''failed to load block data: %w'' ErrNotFound) ErrNotFound
    \<and> errors_Is (fmt_Errorf ''failed to retrieve commit from hash %v: %w'' ErrNotFound)
         ErrNotFound
    \<and> errors_Is (fmt_Errorf ''failed to retrieve block results from height %v: %w''
         ErrNotFound) ErrNotFound
    \<and> errors_Is (fmt_Errorf ''failed to load Validators for height %v: %w'' ErrNotFound)
         ErrNotFound
    \<and> errors_Is (fmt_Errorf ''failed to load hash from index: %w''
         (errors_New ''invalid hash length'')) (errors_New ''invalid hash length'')
    \<and> \<not> errors_Is (fmt_Errorf ''failed to load hash from index: %w''
         (errors_New ''invalid hash length'')) ErrNotFound"
proof -
  have a: "LoadBlock cb s h1 =
      (None, Some (fmt_Errorf ''failed to load hash from index: %w''
         (fmt_Errorf ''failed to load block hash for height %v: %w'' ErrNotFound)))
    \<and> LoadCommit cb s h1 =
      (None, Some (fmt_Errorf ''failed to load hash from index: %w''
         (fmt_Errorf ''failed to load block hash for height %v: %w'' ErrNotFound)))"
    if "entries (db s) (NewKey (getIndexKey h1)) = None"
    using loadHashFromIndex_absent [OF reads that]
    by (simp add: LoadBlock_def LoadCommit_def)
  have b: "LoadBlock cb s h2 =
      (None, Some (fmt_Errorf ''failed to load block data: %w'' ErrNotFound))"
    if "entries (db s) (NewKey (getIndexKey h2)) = Some (Rep_hash32 hash2)"
      and "entries (db s) (NewKey (getBlockKey hash2)) = None"
    using loadHashFromIndex_hit [OF ds_Get_entry [OF reads that(1)]]
      ds_Get_absent [OF reads that(2)]
    by (simp add: LoadBlock_def LoadBlockByHash_def)
  have c: "LoadCommit cb s h3 =
      (None, Some (fmt_Errorf ''failed to retrieve commit from hash %v: %w'' ErrNotFound))"
    if "entries (db s) (NewKey (getIndexKey h3)) = Some (Rep_hash32 hash3)"
      and "entries (db s) (NewKey (getCommitKey hash3)) = None"
    using loadHashFromIndex_hit [OF ds_Get_entry [OF reads that(1)]]
      ds_Get_absent [OF reads that(2)]
    by (simp add: LoadCommit_def LoadCommitByHash_def)
  have d: "LoadBlockResponses cr s h4 =
      (None, Some (fmt_Errorf ''failed to retrieve block results from height %v: %w''
         ErrNotFound))"
    if "entries (db s) (NewKey (getResponsesKey h4)) = None"
    using ds_Get_absent [OF reads that] by (simp add: LoadBlockResponses_def)
  have e: "LoadValidators cv s h5 =
      (None, Some (fmt_Errorf ''failed to load Validators for height %v: %w'' ErrNotFound))"
    if "entries (db s) (NewKey (getValidatorsKey h5)) = None"
    using ds_Get_absent [OF reads that] by (simp add: LoadValidators_def)
  have f: "LoadBlock cb s h6 =
      (None, Some (fmt_Errorf ''failed to load hash from index: %w''
         (errors_New ''invalid hash length'')))
    \<and> LoadCommit cb s h6 =
      (None, Some (fmt_Errorf ''failed to load hash from index: %w''
         (errors_New ''invalid hash length'')))"
    if "entries (db s) (NewKey (getIndexKey h6)) = Some blob" and "length blob \<noteq> 32"
    using loadHashFromIndex_bad_length [OF reads that]
    by (simp add: LoadBlock_def LoadCommit_def)
  show ?thesis
    using a b c d e f by simp
qed

text \<open>
  The witness: an engine with two index entries, one of 32 bytes whose block and commit
  are absent and one of three bytes.
\<close>

theorem loads_of_absent_entries_fail_NotFound_witness:
  "entries (db (holding sparse_entries)) (NewKey (getIndexKey 1)) = None
   \<and> LoadBlock toy_blocks (holding sparse_entries) 1 =
       (None, Some (fmt_Errorf ''failed to load hash from index: %w''
          (fmt_Errorf ''failed to load block hash for height %v: %w'' ErrNotFound)))
   \<and> LoadCommit toy_blocks (holding sparse_entries) 1 =
       (None, Some (fmt_Errorf ''failed to load hash from index: %w''
          (fmt_Errorf ''failed to load block hash for height %v: %w'' ErrNotFound)))
   \<and> entries (db (holding sparse_entries)) (NewKey (getIndexKey 2)) =
       Some (Rep_hash32 (toy_hash 2))
   \<and> LoadBlock toy_blocks (holding sparse_entries) 2 =
       (None, Some (fmt_Errorf ''failed to load block data: %w'' ErrNotFound))
   \<and> LoadCommit toy_blocks (holding sparse_entries) 2 =
       (None, Some (fmt_Errorf ''failed to retrieve commit from hash %v: %w'' ErrNotFound))
   \<and> LoadBlockResponses toy_responses (holding sparse_entries) 1 =
       (None, Some (fmt_Errorf ''failed to retrieve block results from height %v: %w''
          ErrNotFound))
   \<and> LoadValidators toy_validators (holding sparse_entries) 1 =
       (None, Some (fmt_Errorf ''failed to load Validators for height %v: %w'' ErrNotFound))
   \<and> entries (db (holding sparse_entries)) (NewKey (getIndexKey 6)) = Some [1, 2, 3]
   \<and> LoadBlock toy_blocks (holding sparse_entries) 6 =
       (None, Some (fmt_Errorf ''failed to load hash from index: %w''
          (errors_New ''invalid hash length'')))
   \<and> LoadCommit toy_blocks (holding sparse_entries) 6 =
       (None, Some (fmt_Errorf ''failed to load hash from index: %w''
          (errors_New ''invalid hash length'')))"
proof -
  let ?s = "holding sparse_entries"
  have reads: "\<not> faults (db ?s) (Get k)" for k
    by (simp add: holding_simps)
  have i1: "entries (db ?s) (NewKey (getIndexKey 1)) = None"
    by (simp add: holding_simps sparse_entries_def key_eq_simps)
  have i2: "entries (db ?s) (NewKey (getIndexKey 2)) = Some (Rep_hash32 (toy_hash 2))"
    by (simp add: holding_simps sparse_entries_def key_eq_simps)
  have b2: "entries (db ?s) (NewKey (getBlockKey (toy_hash 2))) = None"
    by (simp add: holding_simps sparse_entries_def key_eq_simps)
  have c2: "entries (db ?s) (NewKey (getCommitKey (toy_hash 2))) = None"
    by (simp add: holding_simps sparse_entries_def key_eq_simps)
  have r1: "entries (db ?s) (NewKey (getResponsesKey 1)) = None"
    by (simp add: holding_simps sparse_entries_def key_eq_simps)
  have v1: "entries (db ?s) (NewKey (getValidatorsKey 1)) = None"
    by (simp add: holding_simps sparse_entries_def key_eq_simps)
  have i6: "entries (db ?s) (NewKey (getIndexKey 6)) = Some [1, 2, 3]"
    by (simp add: holding_simps sparse_entries_def key_eq_simps)
  have len: "length [1, 2, 3 :: byte] \<noteq> 32"
    by simp
  from loads_of_absent_entries_fail_NotFound
    [where s = ?s and cb = toy_blocks and cr = toy_responses and cv = toy_validators
      and ?h1.0 = 1 and ?h2.0 = 2 and ?hash2.0 = "toy_hash 2" and ?h3.0 = 2
      and ?hash3.0 = "toy_hash 2" and ?h4.0 = 1 and ?h5.0 = 1 and ?h6.0 = 6
      and blob = "[1, 2, 3]", OF reads]
    i1 i2 b2 c2 r1 v1 i6 len
  show ?thesis by blast
qed

text \<open>
  C10. When the stored bytes do not decode, \<^verbatim>\<open>LoadBlockResponses\<close> returns the
  responses value the decoder left (not nil) together with the error, while
  \<^verbatim>\<open>LoadBlockByHash\<close> and \<^verbatim>\<open>LoadBlock\<close>, \<^verbatim>\<open>LoadCommitByHash\<close> and \<^verbatim>\<open>LoadCommit\<close>, and
  \<^verbatim>\<open>LoadValidators\<close> return nil with the error.
\<close>

theorem decode_failure_results:
  "(ds_Get (db s) (NewKey (getResponsesKey h1)) = Inr data1
      \<and> Responses_Unmarshal cr data1 = (partial, Some err1) \<longrightarrow>
      LoadBlockResponses cr s h1 =
        (Some partial, Some (fmt_Errorf ''failed to unmarshal data: %w'' err1)))
   \<and> (ds_Get (db s) (NewKey (getBlockKey hash2)) = Inr data2
      \<and> Block_UnmarshalBinary cb data2 = Inl err2 \<longrightarrow>
      LoadBlockByHash cb s hash2 =
        (None, Some (fmt_Errorf ''failed to unmarshal block data: %w'' err2))
      \<and> (loadHashFromIndex s h2 = (hash2, None) \<longrightarrow>
          LoadBlock cb s h2 =
            (None, Some (fmt_Errorf ''failed to unmarshal block data: %w'' err2))))
   \<and> (ds_Get (db s) (NewKey (getCommitKey hash3)) = Inr data3
      \<and> Commit_UnmarshalBinary cb data3 = Inl err3 \<longrightarrow>
      LoadCommitByHash cb s hash3 =
        (None, Some (fmt_Errorf ''failed to marshal Commit into object: %w'' err3))
      \<and> (loadHashFromIndex s h3 = (hash3, None) \<longrightarrow>
          LoadCommit cb s h3 =
            (None, Some (fmt_Errorf ''failed to marshal Commit into object: %w'' err3))))
   \<and> (ds_Get (db s) (NewKey (getValidatorsKey h4)) = Inr data4
      \<and> pbValSet_Unmarshal cv data4 = Inl err4 \<longrightarrow>
      LoadValidators cv s h4 =
        (None, Some (fmt_Errorf ''failed to unmarshal to protobuf: %w'' err4)))"
  by (simp add: LoadBlockResponses_def LoadBlockByHash_def LoadBlock_def LoadCommitByHash_def
      LoadCommit_def LoadValidators_def)

text \<open>
  The witness: an engine whose responses, block, commit and validators entries are empty
  byte strings, which none of the example codecs decodes.
\<close>

theorem decode_failure_results_witness:
  "LoadBlockResponses toy_responses (holding corrupt_entries) 1 =
     (Some 0, Some (fmt_Errorf ''failed to unmarshal data: %w''
        (CodecFailure ''bad responses'')))
   \<and> LoadBlockByHash toy_blocks (holding corrupt_entries) (toy_hash 2) =
     (None, Some (fmt_Errorf ''failed to unmarshal block data: %w''
        (CodecFailure ''empty block'')))
   \<and> LoadBlock toy_blocks (holding corrupt_entries) 2 =
     (None, Some (fmt_Errorf ''failed to unmarshal block data: %w''
        (CodecFailure ''empty block'')))
   \<and> LoadCommitByHash toy_blocks (holding corrupt_entries) (toy_hash 2) =
     (None, Some (fmt_Errorf ''failed to marshal Commit into object: %w''
        (CodecFailure ''empty commit'')))
   \<and> LoadCommit toy_blocks (holding corrupt_entries) 2 =
     (None, Some (fmt_Errorf ''failed to marshal Commit into object: %w''
        (CodecFailure ''empty commit'')))
   \<and> LoadValidators toy_validators (holding corrupt_entries) 1 =
     (None, Some (fmt_Errorf ''failed to unmarshal to protobuf: %w''
        (CodecFailure ''bad validators'')))"
proof -
  let ?s = "holding corrupt_entries"
  have g1: "ds_Get (db ?s) (NewKey (getResponsesKey 1)) = Inr []"
    by (simp add: ds_Get_def holding_simps corrupt_entries_def key_eq_simps)
  have u1: "Responses_Unmarshal toy_responses [] = (0, Some (CodecFailure ''bad responses''))"
    by (simp add: toy_responses_def)
  have g2: "ds_Get (db ?s) (NewKey (getBlockKey (toy_hash 2))) = Inr []"
    by (simp add: ds_Get_def holding_simps corrupt_entries_def key_eq_simps)
  have u2: "Block_UnmarshalBinary toy_blocks [] = Inl (CodecFailure ''empty block'')"
    by (simp add: toy_blocks_def)
  have g3: "ds_Get (db ?s) (NewKey (getCommitKey (toy_hash 2))) = Inr []"
    by (simp add: ds_Get_def holding_simps corrupt_entries_def key_eq_simps)
  have u3: "Commit_UnmarshalBinary toy_blocks [] = Inl (CodecFailure ''empty commit'')"
    by (simp add: toy_blocks_def)
  have g4: "ds_Get (db ?s) (NewKey (getValidatorsKey 1)) = Inr []"
    by (simp add: ds_Get_def holding_simps corrupt_entries_def key_eq_simps)
  have u4: "pbValSet_Unmarshal toy_validators [] = Inl (CodecFailure ''bad validators'')"
    by (simp add: toy_validators_def)
  have "ds_Get (db ?s) (NewKey (getIndexKey 2)) = Inr (Rep_hash32 (toy_hash 2))"
    by (simp add: ds_Get_def holding_simps corrupt_entries_def key_eq_simps)
  then have ix: "loadHashFromIndex ?s 2 = (toy_hash 2, None)"
    by (rule loadHashFromIndex_hit)
  from decode_failure_results
    [where s = ?s and cb = toy_blocks and cr = toy_responses and cv = toy_validators
      and ?h1.0 = 1 and ?data1.0 = "[]" and partial = 0
      and ?err1.0 = "CodecFailure ''bad responses''"
      and ?hash2.0 = "toy_hash 2" and ?data2.0 = "[]" and ?h2.0 = 2
      and ?err2.0 = "CodecFailure ''empty block''"
      and ?hash3.0 = "toy_hash 2" and ?data3.0 = "[]" and ?h3.0 = 2
      and ?err3.0 = "CodecFailure ''empty commit''"
      and ?h4.0 = 1 and ?data4.0 = "[]" and ?err4.0 = "CodecFailure ''bad validators''"]
    g1 u1 g2 u2 g3 u3 g4 u4 ix
  show ?thesis by blast
qed

section \<open>The chain state\<close>

text \<open>
  C8. For states that round-trip through the codec, and an engine that answers the read
  of the state key: after an \<^verbatim>\<open>UpdateState\<close> that returns no error, \<^verbatim>\<open>LoadState\<close> returns
  that state; after a second successful \<^verbatim>\<open>UpdateState\<close> it returns the second state, and
  the entries of the engine are those the second update alone would have left.
\<close>

theorem UpdateState_then_LoadState_roundtrip:
  assumes "state_roundtrips c state1" and "state_roundtrips c state2"
    and "UpdateState c s state1 = (s1, None)"
    and "UpdateState c s1 state2 = (s2, None)"
    and "\<not> faults (db s) (Get (NewKey getStateKey))"
  shows "snd (LoadState c s1) = (state1, None)
    \<and> snd (LoadState c s2) = (state2, None)
    \<and> entries (db s2) = entries (db (fst (UpdateState c s state2)))"
proof -
  have one: "snd (LoadState c s1) = (state1, None)"
    using assms(1,3,5) by (rule LoadState_after_UpdateState)
  from UpdateState_ok [OF assms(3)] have flt1: "faults (db s1) = faults (db s)" by blast
  have two: "snd (LoadState c s2) = (state2, None)"
    using assms(2,4) by (rule LoadState_after_UpdateState) (simp add: flt1 assms(5))
  have "entries (db s2) = entries (db (fst (UpdateState c s state2)))"
    using assms(3,4)
    by (auto simp: UpdateState_def ds_Put_def split: sum.splits prod.splits if_splits)
  with one two show ?thesis by blast
qed

text \<open>
  The witness: the states of last block height 5 and 9 on an empty engine.
\<close>

theorem UpdateState_then_LoadState_roundtrip_witness:
  "state_roundtrips toy_states 5 \<and> state_roundtrips toy_states 9
   \<and> snd (UpdateState toy_states (New healthy) 5) = None
   \<and> snd (UpdateState toy_states (fst (UpdateState toy_states (New healthy) 5)) 9) = None
   \<and> snd (LoadState toy_states (fst (UpdateState toy_states (New healthy) 5))) = (5, None)
   \<and> snd (LoadState toy_states
        (fst (UpdateState toy_states (fst (UpdateState toy_states (New healthy) 5)) 9))) =
       (9, None)
   \<and> entries (db (fst (UpdateState toy_states (fst (UpdateState toy_states (New healthy) 5)) 9)))
       = entries (db (fst (UpdateState toy_states (New healthy) 9)))"
proof -
  let ?s1 = "fst (UpdateState toy_states (New healthy) 5)"
  let ?s2 = "fst (UpdateState toy_states ?s1 9)"
  have ok1: "snd (UpdateState toy_states (New healthy) 5) = None"
    by (simp add: toy_UpdateState)
  have ok2: "snd (UpdateState toy_states ?s1 9) = None"
    unfolding toy_UpdateState by (simp add: UpdateState_def ds_Put_def toy_states_def)
  have run1: "UpdateState toy_states (New healthy) 5 = (?s1, None)"
    using ok1 by (simp add: prod_eq_iff)
  have run2: "UpdateState toy_states ?s1 9 = (?s2, None)"
    using ok2 by (simp add: prod_eq_iff)
  have rd: "\<not> faults (db (New healthy)) (Get (NewKey getStateKey))"
    by (simp add: New_def healthy_def)
  from UpdateState_then_LoadState_roundtrip [OF toy_state_roundtrips run1 run2 rd]
    toy_state_roundtrips ok1 ok2
  show ?thesis by blast
qed

end
